theory Spec2Isabelle
  imports Complex_Main "HOL-Library.Word" "HOL-Library.Char_ord" "HOL-Library.List_Lexorder"
begin

section \<open>Values of the Qt library used by projectmodel.cpp\<close>

text \<open>
  A C++ \<open>int\<close> is a 32-bit two's complement word, read with \<open>sint\<close>.  A \<open>QString\<close> is a
  list of characters.  A \<open>QUuid\<close> is its 128-bit value; the null uuid is 0.
\<close>

type_synonym cint = "32 word"
type_synonym QUuid = "128 word"

text \<open>
  \<open>QJsonValue\<close>: the seven kinds of Qt's JSON value.  A number is stored as a double; the
  model keeps its exact value as a rational (every finite double is one).  A
  \<open>QJsonObject\<close> is the list of its (key, value) entries in iteration order, which is
  ascending key order; a \<open>QJsonArray\<close> is a list.
\<close>

datatype QJsonValue =
    JNull
  | JBool bool
  | JDouble rat
  | JString string
  | JArray "QJsonValue list"
  | JObject "(string \<times> QJsonValue) list"
  | JUndefined

type_synonym QJsonObject = "(string \<times> QJsonValue) list"
type_synonym QJsonArray = "QJsonValue list"

text \<open>\<open>QJsonValue(int)\<close>: the double with the value of the int.\<close>

definition QJsonValue_int :: "cint \<Rightarrow> QJsonValue" where
  "QJsonValue_int n = JDouble (of_int (sint n))"

text \<open>\<open>QJsonObject::value(key)\<close> and \<open>operator[]\<close>: \<open>Undefined\<close> when the key is absent.\<close>

definition QJsonObject_value :: "QJsonObject \<Rightarrow> string \<Rightarrow> QJsonValue" where
  "QJsonObject_value obj k = (case map_of obj k of None \<Rightarrow> JUndefined | Some v \<Rightarrow> v)"

definition QJsonObject_contains :: "QJsonObject \<Rightarrow> string \<Rightarrow> bool" where
  "QJsonObject_contains obj k = (map_of obj k \<noteq> None)"

definition QJsonObject_isEmpty :: "QJsonObject \<Rightarrow> bool" where
  "QJsonObject_isEmpty obj = (obj = [])"

text \<open>
  \<open>QJsonObject::insert(key, value)\<close>: replaces the value of a key that is present, and
  otherwise adds the entry at its place in key order.
\<close>

fun QJsonObject_insert :: "string \<Rightarrow> QJsonValue \<Rightarrow> QJsonObject \<Rightarrow> QJsonObject" where
  "QJsonObject_insert k v [] = [(k, v)]"
| "QJsonObject_insert k v ((k', v') # rest) =
     (if k = k' then (k, v) # rest
      else if k < k' then (k, v) # (k', v') # rest
      else (k', v') # QJsonObject_insert k v rest)"

text \<open>The conversions of \<open>QJsonValue\<close>; each returns a default on a value of another kind.\<close>

definition toString :: "QJsonValue \<Rightarrow> string" where
  "toString v = (case v of JString s \<Rightarrow> s | _ \<Rightarrow> [])"

definition toObject :: "QJsonValue \<Rightarrow> QJsonObject" where
  "toObject v = (case v of JObject m \<Rightarrow> m | _ \<Rightarrow> [])"

definition toArray :: "QJsonValue \<Rightarrow> QJsonArray" where
  "toArray v = (case v of JArray xs \<Rightarrow> xs | _ \<Rightarrow> [])"

text \<open>
  \<open>QJsonValue::toInt(defaultValue)\<close>: the number when the value is a double that is a
  whole number representable as an int, and the default otherwise.
\<close>

definition toInt :: "QJsonValue \<Rightarrow> cint \<Rightarrow> cint" where
  "toInt v d =
     (case v of
        JDouble r \<Rightarrow>
          (if of_int \<lfloor>r\<rfloor> = r \<and> - (2 ^ 31) \<le> \<lfloor>r\<rfloor> \<and> \<lfloor>r\<rfloor> < 2 ^ 31 then word_of_int \<lfloor>r\<rfloor> else d)
      | _ \<Rightarrow> d)"

text \<open>A \<open>QImage\<close>: its dimensions and its pixel data, which the model never inspects.\<close>

record QImage =
  QImage_width :: cint
  QImage_height :: cint
  QImage_bits :: string

text \<open>\<open>QJsonDocument\<close>: null, or holding an array or an object.\<close>

datatype QJsonDocument = DocNull | DocArray QJsonArray | DocObject QJsonObject

definition isNull_doc :: "QJsonDocument \<Rightarrow> bool" where
  "isNull_doc doc = (doc = DocNull)"

definition isEmpty_doc :: "QJsonDocument \<Rightarrow> bool" where
  "isEmpty_doc doc = (case doc of DocNull \<Rightarrow> True | DocArray xs \<Rightarrow> xs = [] | DocObject m \<Rightarrow> m = [])"

definition isObject_doc :: "QJsonDocument \<Rightarrow> bool" where
  "isObject_doc doc = (case doc of DocObject m \<Rightarrow> True | _ \<Rightarrow> False)"

definition object_doc :: "QJsonDocument \<Rightarrow> QJsonObject" where
  "object_doc doc = (case doc of DocObject m \<Rightarrow> m | _ \<Rightarrow> [])"

section \<open>Declarations of projectmodel.h\<close>

datatype AssetType = AssetType_Part | AssetType_Composite | AssetType_Folder

record AssetRef =
  uuid :: QUuid
  type :: AssetType

definition isNull :: "AssetRef \<Rightarrow> bool" where
  "isNull r = (uuid r = 0)"

text \<open>
  The functions of the Qt library that the code calls and whose result the model cannot
  compute from the source, and the two declarations of the header projectmodel.h that the
  source uses without defining them, are parameters of the model:
  \<^item> \<open>QJsonDocument::fromJson\<close>: a parse error with its message, or a document;
  \<^item> \<open>QUuid(QString)\<close> and \<open>QUuid::toString\<close>;
  \<^item> \<open>QImage::loadFromData(bytes, "PNG")\<close>: \<open>None\<close> when decoding fails;
  \<^item> \<open>QString::toInt\<close> and \<open>QString::toUInt\<close>;
  \<^item> the constant \<open>MAX_PIVOTS\<close>;
  \<^item> the kind that a default-constructed \<open>AssetRef\<close> has.
  The macro \<open>QT_NO_DEBUG\<close> of the build is a parameter as well: \<open>Q_ASSERT\<close> tests its
  condition in a build without it, and is empty in a build with it.
\<close>

record Env =
  QJsonDocument_fromJson :: "string \<Rightarrow> string + QJsonDocument"
  QUuid_fromString :: "string \<Rightarrow> QUuid"
  QUuid_toString :: "QUuid \<Rightarrow> string"
  QImage_loadFromData :: "string \<Rightarrow> QImage option"
  QString_toInt :: "string \<Rightarrow> cint"
  QString_toUInt :: "string \<Rightarrow> 32 word"
  MAX_PIVOTS :: nat
  AssetRef_type0 :: AssetType
  QT_NO_DEBUG :: bool

text \<open>
  \<open>QJsonValue::toVariant().toInt()\<close>: a double is rounded to the nearest integer and cut
  to 32 bits, a boolean is 0 or 1, a string is parsed, and every other kind gives 0.
  (The model rounds a tie upwards; no property below depends on a number that is not
  whole.)
\<close>

definition toVariant_toInt :: "Env \<Rightarrow> QJsonValue \<Rightarrow> cint" where
  "toVariant_toInt e v =
     (case v of
        JDouble r \<Rightarrow> word_of_int (round r)
      | JBool b \<Rightarrow> (if b then 1 else 0)
      | JString s \<Rightarrow> QString_toInt e s
      | _ \<Rightarrow> 0)"

text \<open>The default-constructed \<open>AssetRef\<close>: the null uuid.\<close>

definition AssetRef_new :: "Env \<Rightarrow> AssetRef" where
  "AssetRef_new e = \<lparr>uuid = 0, type = AssetRef_type0 e\<rparr>"

text \<open>\<open>operator==\<close> on \<open>AssetRef\<close> (lines 30-32): two null refs are equal whatever their kind.\<close>

definition AssetRef_eq :: "AssetRef \<Rightarrow> AssetRef \<Rightarrow> bool" where
  "AssetRef_eq a b = ((uuid a = 0 \<and> uuid b = 0) \<or> (uuid a = uuid b \<and> type a = type b))"

text \<open>
  The fields that the source reads and writes.  \<open>Folder\<close>, \<open>Part\<close> and \<open>Composite\<close> are
  assets: each has a ref, a name and a parent ref.
\<close>

record Asset =
  ref :: AssetRef
  name :: string
  parent :: AssetRef

type_synonym Folder = Asset

record Mode =
  width :: cint
  height :: cint
  numFrames :: cint
  numPivots :: cint
  framesPerSecond :: cint
  frames :: "QImage list"
  anchor :: "(cint \<times> cint) list"
  pivots :: "(cint \<times> cint) list list"

record Part = Asset +
  properties :: string
  modes :: "string \<rightharpoonup> Mode"

record Child =
  child_parent :: cint
  child_parentPivot :: cint
  child_z :: cint
  child_part :: AssetRef
  child_index :: cint
  child_children :: "cint list"

record Composite = Asset +
  root :: cint
  comp_properties :: string
  children :: "string list"
  childrenMap :: "string \<rightharpoonup> Child"

text \<open>
  The objects that \<open>QSharedPointer<T>::create()\<close> constructs: empty strings and
  containers, null refs, and a zero \<open>root\<close>.
\<close>

definition Folder_new :: "Env \<Rightarrow> Folder" where
  "Folder_new e = \<lparr>ref = AssetRef_new e, name = [], parent = AssetRef_new e\<rparr>"

definition Part_new :: "Env \<Rightarrow> Part" where
  "Part_new e = \<lparr>ref = AssetRef_new e, name = [], parent = AssetRef_new e,
                 properties = [], modes = Map.empty\<rparr>"

definition Composite_new :: "Env \<Rightarrow> Composite" where
  "Composite_new e = \<lparr>ref = AssetRef_new e, name = [], parent = AssetRef_new e,
                      root = 0, comp_properties = [], children = [], childrenMap = Map.empty\<rparr>"

section \<open>The folder mapper\<close>

text \<open>\<open>ProjectModel::JsonToFolder\<close> (lines 443-451), updating the folder it is given.\<close>

definition JsonToFolder :: "Env \<Rightarrow> QJsonObject \<Rightarrow> Folder \<Rightarrow> Folder" where
  "JsonToFolder e obj folder =
     (let folder = folder\<lparr>name := toString (QJsonObject_value obj ''name'')\<rparr>
      in if QJsonObject_contains obj ''parent''
         then folder\<lparr>parent := (parent folder)
                \<lparr>uuid := QUuid_fromString e (toString (QJsonObject_value obj ''parent'')),
                 type := AssetType_Folder\<rparr>\<rparr>
         else folder)"

text \<open>\<open>ProjectModel::FolderToJson\<close> (lines 453-459), inserting into the object it is given.\<close>

definition FolderToJson :: "Env \<Rightarrow> string \<Rightarrow> Folder \<Rightarrow> QJsonObject \<Rightarrow> QJsonObject" where
  "FolderToJson e nm folder obj =
     (let obj = QJsonObject_insert ''name'' (JString nm) obj
      in if \<not> isNull (parent folder)
         then QJsonObject_insert ''parent'' (JString (QUuid_toString e (uuid (parent folder)))) obj
         else obj)"

section \<open>The composite mapper\<close>

text \<open>
  The local \<open>child\<close> that the body of the loop over the \<open>parts\<close> array builds from a
  child record and the counter \<open>index\<close> (lines 630-641).  Every field is assigned.
\<close>

definition JsonToComposite_child :: "Env \<Rightarrow> QJsonObject \<Rightarrow> cint \<Rightarrow> Child" where
  "JsonToComposite_child e childObject idx =
     \<lparr>child_parent = toVariant_toInt e (QJsonObject_value childObject ''parent''),
      child_parentPivot = toVariant_toInt e (QJsonObject_value childObject ''parentPivot''),
      child_z = toVariant_toInt e (QJsonObject_value childObject ''z''),
      child_part = \<lparr>uuid = QUuid_fromString e (toString (QJsonObject_value childObject ''part'')),
                    type = AssetType_Part\<rparr>,
      child_index = idx,
      child_children = map (toVariant_toInt e) (toArray (QJsonObject_value childObject ''children''))\<rparr>"

text \<open>
  The loop over the \<open>parts\<close> array of \<open>ProjectModel::JsonToComposite\<close> (lines 624-645):
  \<open>idx\<close> is the counter \<open>index\<close>.
\<close>

fun JsonToComposite_parts :: "Env \<Rightarrow> QJsonArray \<Rightarrow> cint \<Rightarrow> Composite \<Rightarrow> Composite" where
  "JsonToComposite_parts e [] idx cmp = cmp"
| "JsonToComposite_parts e (v # rest) idx cmp =
     (let childObject = toObject v;
          nm = toString (QJsonObject_value childObject ''name'');
          cmp = cmp\<lparr>children := children cmp @ [nm]\<rparr>;
          child = JsonToComposite_child e childObject idx;
          cmp = cmp\<lparr>childrenMap := (childrenMap cmp)(nm \<mapsto> child)\<rparr>
      in JsonToComposite_parts e rest (idx + 1) cmp)"

text \<open>\<open>ProjectModel::JsonToComposite\<close> (lines 613-646), updating the composite it is given.\<close>

definition JsonToComposite :: "Env \<Rightarrow> QJsonObject \<Rightarrow> Composite \<Rightarrow> Composite" where
  "JsonToComposite e obj cmp =
     (let cmp = cmp\<lparr>root := toVariant_toInt e (QJsonObject_value obj ''root'')\<rparr>;
          cmp = cmp\<lparr>name := toString (QJsonObject_value obj ''name'')\<rparr>;
          cmp = cmp\<lparr>comp_properties := toString (QJsonObject_value obj ''properties'')\<rparr>;
          cmp = (if QJsonObject_contains obj ''parent''
                  then cmp\<lparr>parent := (parent cmp)
                         \<lparr>uuid := QUuid_fromString e (toString (QJsonObject_value obj ''parent'')),
                          type := AssetType_Folder\<rparr>\<rparr>
                  else cmp)
      in JsonToComposite_parts e (toArray (QJsonObject_value obj ''parts'')) 0 cmp)"

text \<open>\<open>QString::replace(' ', '_')\<close>.\<close>

definition replace_spaces :: "string \<Rightarrow> string" where
  "replace_spaces s = map (\<lambda>c. if c = CHR '' '' then CHR ''_'' else c) s"

text \<open>
  \<open>QMap::value(key)\<close> on \<open>childrenMap\<close>: a value-initialised \<open>Child\<close> when the key is absent.
\<close>

definition Child_new :: "Env \<Rightarrow> Child" where
  "Child_new e = \<lparr>child_parent = 0, child_parentPivot = 0, child_z = 0,
                  child_part = AssetRef_new e, child_index = 0, child_children = []\<rparr>"

definition childrenMap_value :: "Env \<Rightarrow> (string \<rightharpoonup> Child) \<Rightarrow> string \<Rightarrow> Child" where
  "childrenMap_value e m k = (case m k of None \<Rightarrow> Child_new e | Some c \<Rightarrow> c)"

text \<open>The body of the loop over \<open>comp.children\<close> in \<open>CompositeToJson\<close> (lines 590-606).\<close>

definition CompositeToJson_child :: "Env \<Rightarrow> Composite \<Rightarrow> string \<Rightarrow> QJsonValue" where
  "CompositeToJson_child e cmp childName =
     (let fixedChildName = replace_spaces childName;
          child = childrenMap_value e (childrenMap cmp) childName;
          childObject = QJsonObject_insert ''name'' (JString fixedChildName) [];
          childObject = QJsonObject_insert ''parent'' (QJsonValue_int (child_parent child)) childObject;
          childObject = QJsonObject_insert ''parentPivot'' (QJsonValue_int (child_parentPivot child)) childObject;
          childObject = QJsonObject_insert ''z'' (QJsonValue_int (child_z child)) childObject;
          childObject = QJsonObject_insert ''part'' (JString (QUuid_toString e (uuid (child_part child)))) childObject;
          childObject = QJsonObject_insert ''children'' (JArray (map QJsonValue_int (child_children child))) childObject
      in JObject childObject)"

text \<open>\<open>ProjectModel::CompositeToJson\<close> (lines 579-611), inserting into the object it is given.\<close>

definition CompositeToJson :: "Env \<Rightarrow> string \<Rightarrow> Composite \<Rightarrow> QJsonObject \<Rightarrow> QJsonObject" where
  "CompositeToJson e nm cmp obj =
     (let obj = QJsonObject_insert ''root'' (QJsonValue_int (root cmp)) obj;
          obj = QJsonObject_insert ''properties'' (JString (comp_properties cmp)) obj;
          obj = QJsonObject_insert ''name'' (JString nm) obj;
          obj = (if \<not> isNull (parent cmp)
                 then QJsonObject_insert ''parent'' (JString (QUuid_toString e (uuid (parent cmp)))) obj
                 else obj);
          compChildren = map (CompositeToJson_child e cmp) (children cmp)
      in QJsonObject_insert ''parts'' (JArray compChildren) obj)"

section \<open>The part mapper\<close>

text \<open>
  What ends the process instead of returning: a failed \<open>Q_ASSERT\<close> (with the asserted
  expression), a call through a null \<open>QSharedPointer\<close>, and an access outside the fixed
  array \<open>pivots[MAX_PIVOTS]\<close>.
\<close>

datatype fault = Q_ASSERT_failed string | NullPointerDereference | ArrayIndexOutOfBounds

text \<open>
  \<open>Q_ASSERT(cond)\<close> followed by the rest of the function: in a build without
  \<open>QT_NO_DEBUG\<close> a false condition ends the process, with the asserted expression in the
  message; in a build with \<open>QT_NO_DEBUG\<close> the macro is empty and the rest runs whatever
  the condition is.
\<close>

definition Q_ASSERT :: "Env \<Rightarrow> bool \<Rightarrow> string \<Rightarrow> fault + 'a \<Rightarrow> fault + 'a" where
  "Q_ASSERT e cond expr rest =
     (if \<not> QT_NO_DEBUG e \<and> \<not> cond then Inl (Q_ASSERT_failed expr) else rest)"

text \<open>\<open>QString::arg(int)\<close> for an index that is not negative: its decimal digits.\<close>

function QString_number :: "nat \<Rightarrow> string" where
  "QString_number n =
     (if n < 10 then [''0123456789'' ! n]
      else QString_number (n div 10) @ [''0123456789'' ! (n mod 10)])"
  by pat_completeness auto
termination
  by (relation "measure (\<lambda>n. n)") auto

declare QString_number.simps [simp del]

text \<open>
  The first pivot loop (lines 504-508), for \<open>p\<close> over the given indices: the point read
  from the frame record is appended to \<open>pivots[p]\<close>.
\<close>

fun JsonToPart_pivots ::
  "Env \<Rightarrow> QJsonObject \<Rightarrow> nat list \<Rightarrow> (cint \<times> cint) list list \<Rightarrow> fault + (cint \<times> cint) list list" where
  "JsonToPart_pivots e frameObject [] pv = Inr pv"
| "JsonToPart_pivots e frameObject (p # ps) pv =
     (let px = toVariant_toInt e (QJsonObject_value frameObject (''p'' @ QString_number p @ ''x''));
          py = toVariant_toInt e (QJsonObject_value frameObject (''p'' @ QString_number p @ ''y''))
      in if p < MAX_PIVOTS e
         then JsonToPart_pivots e frameObject ps (pv[p := pv ! p @ [(px, py)]])
         else Inl ArrayIndexOutOfBounds)"

text \<open>The second pivot loop (lines 509-511): \<open>(0,0)\<close> is appended to \<open>pivots[p]\<close>.\<close>

fun JsonToPart_padding :: "nat list \<Rightarrow> (cint \<times> cint) list list \<Rightarrow> (cint \<times> cint) list list" where
  "JsonToPart_padding [] pv = pv"
| "JsonToPart_padding (p # ps) pv = JsonToPart_padding ps (pv[p := pv ! p @ [(0, 0)]])"

text \<open>
  The body of the loop over the frames of a mode (lines 490-511).  \<open>imageMap.value\<close> gives
  a null pointer for a name that is not in the map, and line 498 calls through it, so
  that \<open>Q_ASSERT(image)\<close> at line 501 is only reached with a pointer that is not null.
  The second loop starts at \<open>numPivots\<close>, which is outside the array when it is negative.
\<close>

definition JsonToPart_frame :: "Env \<Rightarrow> (string \<rightharpoonup> QImage) \<Rightarrow> QJsonObject \<Rightarrow> Mode \<Rightarrow> fault + Mode" where
  "JsonToPart_frame e imageMap frameObject m =
     (let ax = toVariant_toInt e (QJsonObject_value frameObject ''ax'');
          ay = toVariant_toInt e (QJsonObject_value frameObject ''ay'');
          m = m\<lparr>anchor := anchor m @ [(ax, ay)]\<rparr>;
          imageName = toString (QJsonObject_value frameObject ''image'')
      in case imageMap imageName of
           None \<Rightarrow> Inl NullPointerDereference
         | Some img \<Rightarrow>
             (let imageHeight = QImage_height img;
                  imageWidth = QImage_width img
              in Q_ASSERT e True ''image''
                   (Q_ASSERT e (imageWidth = width m \<and> imageHeight = height m)
                      ''imageWidth == m.width && imageHeight == m.height''
                      (let m = m\<lparr>frames := frames m @ [img]\<rparr>
                       in case JsonToPart_pivots e frameObject [0 ..< nat (sint (numPivots m))] (pivots m) of
                            Inl f \<Rightarrow> Inl f
                          | Inr pv \<Rightarrow>
                              if sint (numPivots m) < 0 then Inl ArrayIndexOutOfBounds
                              else Inr (m\<lparr>pivots :=
                                     JsonToPart_padding [nat (sint (numPivots m)) ..< MAX_PIVOTS e] pv\<rparr>)))))"

text \<open>The loop over the frames array (line 489).\<close>

fun JsonToPart_frames :: "Env \<Rightarrow> (string \<rightharpoonup> QImage) \<Rightarrow> QJsonArray \<Rightarrow> Mode \<Rightarrow> fault + Mode" where
  "JsonToPart_frames e imageMap [] m = Inr m"
| "JsonToPart_frames e imageMap (v # rest) m =
     (case JsonToPart_frame e imageMap (toObject v) m of
        Inl f \<Rightarrow> Inl f
      | Inr m' \<Rightarrow> JsonToPart_frames e imageMap rest m')"

text \<open>
  The decoding of one mode record (lines 479-512).  The local \<open>Part::Mode m\<close> starts with
  empty frame and anchor lists and \<open>MAX_PIVOTS\<close> empty pivot lists.
\<close>

definition JsonToPart_mode :: "Env \<Rightarrow> (string \<rightharpoonup> QImage) \<Rightarrow> QJsonObject \<Rightarrow> fault + Mode" where
  "JsonToPart_mode e imageMap modeObject =
     (let m = \<lparr>width = toInt (QJsonObject_value modeObject ''width'') 0,
               height = toInt (QJsonObject_value modeObject ''height'') 0,
               numFrames = toInt (QJsonObject_value modeObject ''numFrames'') 0,
               numPivots = toInt (QJsonObject_value modeObject ''numPivots'') 0,
               framesPerSecond = toInt (QJsonObject_value modeObject ''framesPerSecond'') 0,
               frames = [], anchor = [], pivots = replicate (MAX_PIVOTS e) []\<rparr>;
          frameArray = toArray (QJsonObject_value modeObject ''frames'')
      in Q_ASSERT e (int (length frameArray) = sint (numFrames m)) ''frameArray.count()==m.numFrames''
           (JsonToPart_frames e imageMap frameArray m))"

text \<open>The loop over the entries of the part record (lines 469-516).\<close>

fun JsonToPart_entries :: "Env \<Rightarrow> (string \<rightharpoonup> QImage) \<Rightarrow> QJsonObject \<Rightarrow> Part \<Rightarrow> fault + Part" where
  "JsonToPart_entries e imageMap [] part = Inr part"
| "JsonToPart_entries e imageMap ((modeName, v) # rest) part =
     (if modeName = ''properties''
      then JsonToPart_entries e imageMap rest (part\<lparr>properties := toString v\<rparr>)
      else
        (let modeObject = toObject v
         in if \<not> QJsonObject_isEmpty modeObject
            then (case JsonToPart_mode e imageMap modeObject of
                    Inl f \<Rightarrow> Inl f
                  | Inr m \<Rightarrow>
                      JsonToPart_entries e imageMap rest (part\<lparr>modes := (modes part)(modeName \<mapsto> m)\<rparr>))
            else JsonToPart_entries e imageMap rest part))"

text \<open>\<open>ProjectModel::JsonToPart\<close> (lines 461-517), updating the part it is given.\<close>

definition JsonToPart :: "Env \<Rightarrow> QJsonObject \<Rightarrow> (string \<rightharpoonup> QImage) \<Rightarrow> Part \<Rightarrow> fault + Part" where
  "JsonToPart e obj imageMap part =
     (let part = part\<lparr>name := toString (QJsonObject_value obj ''name'')\<rparr>;
          part = (if QJsonObject_contains obj ''parent''
                  then part\<lparr>parent := (parent part)
                         \<lparr>uuid := QUuid_fromString e (toString (QJsonObject_value obj ''parent'')),
                          type := AssetType_Folder\<rparr>\<rparr>
                  else part)
      in JsonToPart_entries e imageMap obj part)"

text \<open>
  \<open>ProjectModel::PartToJson\<close> (lines 519-577): the body is commented out, so the object
  and the image map it is given are left as they are.
\<close>

definition PartToJson ::
  "string \<Rightarrow> Part \<Rightarrow> QJsonObject \<Rightarrow> (string \<rightharpoonup> QImage) \<Rightarrow> QJsonObject \<times> (string \<rightharpoonup> QImage)" where
  "PartToJson nm part obj imageMap = (obj, imageMap)"

section \<open>The registry\<close>

text \<open>
  \<open>ProjectModel\<close>: the three collections and the remembered file name.  The collections
  are \<open>QMap\<close>s keyed by \<open>AssetRef\<close>, whose \<open>operator<\<close> (lines 38-40) compares the uuid
  alone: two refs with the same uuid are the same key, so a collection is a map from the
  uuid; the stored asset carries its own ref.
\<close>

record ProjectModel =
  folders :: "QUuid \<rightharpoonup> Folder"
  parts :: "QUuid \<rightharpoonup> Part"
  composites :: "QUuid \<rightharpoonup> Composite"
  fileName :: string


text \<open>
  Modelled from the spec: the archive reader \<open>lindenb::io::TarIn\<close> of tarball.h is not
  among the sources.  By section 4.2 reading gives a mapping from record name to raw
  bytes or fails; \<open>TarIn\<close> is the reader after \<open>read()\<close>, with its \<open>ok()\<close> flag and its
  \<open>fileMap()\<close>, each record being its buffer (whose length is the record's \<open>length\<close>).
  A file system gives, for a path, \<open>None\<close> when the file cannot be opened and otherwise
  the reader's state on the file's content.
\<close>

record TarIn =
  ok :: bool
  fileMap :: "(string \<times> string) list"

type_synonym FileSystem = "string \<Rightarrow> TarIn option"

text \<open>
  The preferences store \<open>QSettings\<close>: a value is the unsigned number stored for
  \<open>background_colour\<close> or the variant of a JSON value.
\<close>

datatype QVariant = QVariant_uint "32 word" | QVariant_json QJsonValue

type_synonym QSettings = "string \<rightharpoonup> QVariant"

text \<open>
  The scan for the first NUL byte (lines 165-171 and 203-210), from position \<open>i\<close>: the
  length stays 0 when the buffer holds no NUL byte.
\<close>

fun NUL_scan :: "nat \<Rightarrow> string \<Rightarrow> nat" where
  "NUL_scan i [] = 0"
| "NUL_scan i (c # cs) = (if c = CHR 0x00 then i else NUL_scan (Suc i) cs)"

text \<open>\<open>QString::endsWith\<close>.\<close>

definition endsWith :: "string \<Rightarrow> string \<Rightarrow> bool" where
  "endsWith s suffix = (length suffix \<le> length s \<and> drop (length s - length suffix) s = suffix)"

text \<open>
  The preferences block of \<open>load\<close> (lines 201-236).  A parse error and a document that is
  not an object are only logged.
\<close>

definition load_prefs :: "Env \<Rightarrow> TarIn \<Rightarrow> QSettings \<Rightarrow> QSettings" where
  "load_prefs e tarball settings =
     (case map_of (fileMap tarball) ''prefs.json'' of
        None \<Rightarrow> settings
      | Some prefsRec \<Rightarrow>
          (let presLength = NUL_scan 0 prefsRec
           in case QJsonDocument_fromJson e (take presLength prefsRec) of
                Inl msg \<Rightarrow> settings
              | Inr prefsDoc \<Rightarrow>
                  if isNull_doc prefsDoc \<or> isEmpty_doc prefsDoc \<or> \<not> isObject_doc prefsDoc
                  then settings
                  else fold (\<lambda>(k, v) st.
                          if k = ''background_colour''
                          then st(k \<mapsto> QVariant_uint (QString_toUInt e (toString v)))
                          else st(k \<mapsto> QVariant_json v))
                        (object_doc prefsDoc) settings))"

text \<open>The image that \<open>QSharedPointer<QImage>::create()\<close> constructs: the null image.\<close>

definition QImage_new :: QImage where
  "QImage_new = \<lparr>QImage_width = 0, QImage_height = 0, QImage_bits = []\<rparr>"

text \<open>
  The loop that decodes the image records (lines 240-251).  When an image cannot be
  decoded, \<open>res\<close> is false and the image stays null; it is inserted into the map all the
  same when \<open>Q_ASSERT(res)\<close> is empty.
\<close>

fun load_images :: "Env \<Rightarrow> (string \<times> string) list \<Rightarrow> (string \<rightharpoonup> QImage) \<Rightarrow> fault + (string \<rightharpoonup> QImage)" where
  "load_images e [] imageMap = Inr imageMap"
| "load_images e ((assetName, rec) # rest) imageMap =
     (if endsWith assetName ''.png''
      then (let res = (QImage_loadFromData e rec \<noteq> None);
                img = (case QImage_loadFromData e rec of None \<Rightarrow> QImage_new | Some loaded \<Rightarrow> loaded)
            in Q_ASSERT e res ''res'' (load_images e rest (imageMap(assetName \<mapsto> img))))
      else load_images e rest imageMap)"

text \<open>
  The folder that the body of the loop over the \<open>folders\<close> object builds from the key
  \<open>k\<close> and the value \<open>v\<close> of an entry (lines 261-266).
\<close>

definition load_folder :: "Env \<Rightarrow> string \<Rightarrow> QJsonValue \<Rightarrow> Folder" where
  "load_folder e k v =
     (let folderObj = toObject v;
          folder = Folder_new e;
          folder = folder\<lparr>ref := (ref folder)\<lparr>uuid := QUuid_fromString e k, type := AssetType_Folder\<rparr>\<rparr>
      in JsonToFolder e folderObj folder)"

text \<open>The loop over the \<open>folders\<close> object (lines 259-269).\<close>

fun load_folders :: "Env \<Rightarrow> QJsonObject \<Rightarrow> ProjectModel \<Rightarrow> ProjectModel" where
  "load_folders e [] pm = pm"
| "load_folders e ((k, v) # rest) pm =
     (let folder = load_folder e k v
      in load_folders e rest (pm\<lparr>folders := (folders pm)(uuid (ref folder) \<mapsto> folder)\<rparr>))"

text \<open>
  The part that the body of the loop over the \<open>parts\<close> object builds from an entry
  (lines 273-279), or the fault that ends its decoding.
\<close>

definition load_part :: "Env \<Rightarrow> (string \<rightharpoonup> QImage) \<Rightarrow> string \<Rightarrow> QJsonValue \<Rightarrow> fault + Part" where
  "load_part e imageMap k v =
     (let partObj = toObject v;
          part = Part_new e;
          part = part\<lparr>ref := (ref part)\<lparr>uuid := QUuid_fromString e k, type := AssetType_Part\<rparr>\<rparr>;
          part = part\<lparr>properties := []\<rparr>
      in JsonToPart e partObj imageMap part)"

text \<open>The loop over the \<open>parts\<close> object (lines 271-282).\<close>

fun load_parts :: "Env \<Rightarrow> (string \<rightharpoonup> QImage) \<Rightarrow> QJsonObject \<Rightarrow> ProjectModel \<Rightarrow> fault + ProjectModel" where
  "load_parts e imageMap [] pm = Inr pm"
| "load_parts e imageMap ((k, v) # rest) pm =
     (case load_part e imageMap k v of
        Inl f \<Rightarrow> Inl f
      | Inr part \<Rightarrow> load_parts e imageMap rest (pm\<lparr>parts := (parts pm)(uuid (ref part) \<mapsto> part)\<rparr>))"

text \<open>
  The composite that the body of the loop over the \<open>comps\<close> object builds from an entry
  (lines 286-292).
\<close>

definition load_comp :: "Env \<Rightarrow> string \<Rightarrow> QJsonValue \<Rightarrow> Composite" where
  "load_comp e k v =
     (let compObj = toObject v;
          composite = Composite_new e;
          composite = composite\<lparr>ref := (ref composite)\<lparr>uuid := QUuid_fromString e k, type := AssetType_Composite\<rparr>\<rparr>;
          composite = composite\<lparr>comp_properties := []\<rparr>
      in JsonToComposite e compObj composite)"

text \<open>The loop over the \<open>comps\<close> object (lines 284-295).\<close>

fun load_comps :: "Env \<Rightarrow> QJsonObject \<Rightarrow> ProjectModel \<Rightarrow> ProjectModel" where
  "load_comps e [] pm = pm"
| "load_comps e ((k, v) # rest) pm =
     (let composite = load_comp e k v
      in load_comps e rest (pm\<lparr>composites := (composites pm)(uuid (ref composite) \<mapsto> composite)\<rparr>))"

text \<open>
  The block that fills the registry from the document (lines 253-299), given the image
  map.  The registry is not cleared: the assets are inserted into the collections as
  they are.
\<close>

definition load_data :: "Env \<Rightarrow> (string \<rightharpoonup> QImage) \<Rightarrow> QJsonObject \<Rightarrow> string \<Rightarrow> ProjectModel \<Rightarrow> fault + ProjectModel" where
  "load_data e imageMap dataObj fname pm =
     (let folderRecs = toObject (QJsonObject_value dataObj ''folders'');
          partRecs = toObject (QJsonObject_value dataObj ''parts'');
          compRecs = toObject (QJsonObject_value dataObj ''comps'');
          pm = (if \<not> QJsonObject_isEmpty folderRecs then load_folders e folderRecs pm else pm)
      in case (if \<not> QJsonObject_isEmpty partRecs then load_parts e imageMap partRecs pm else Inr pm) of
           Inl f \<Rightarrow> Inl f
         | Inr pm \<Rightarrow>
             (let pm = (if \<not> QJsonObject_isEmpty compRecs then load_comps e compRecs pm else pm)
              in Inr (pm\<lparr>fileName := fname\<rparr>)))"

text \<open>
  \<open>ProjectModel::load\<close> (lines 142-300).  The state is the registry, the preferences
  store and the caller's \<open>reason\<close> string; the result is the returned boolean with the
  new state, or the fault that ended the process.
\<close>

definition load ::
  "Env \<Rightarrow> FileSystem \<Rightarrow> string \<Rightarrow> ProjectModel \<times> QSettings \<times> string
     \<Rightarrow> fault + (bool \<times> ProjectModel \<times> QSettings \<times> string)" where
  "load e fs fname st =
     (case st of (pm, settings, reason) \<Rightarrow>
      (case fs fname of
         None \<Rightarrow> Inr (False, pm, settings, ''Cannot open file'')
       | Some tarball \<Rightarrow>
           if \<not> ok tarball then Inr (False, pm, settings, ''Cannot read project file'')
           else
             (case map_of (fileMap tarball) ''data.json'' of
                None \<Rightarrow> Inr (False, pm, settings, ''Internal data.json is missing'')
              | Some dataRec \<Rightarrow>
                  (let dataLength = NUL_scan 0 dataRec
                   in if dataLength = 0 then Inr (False, pm, settings, ''Internal data.json is empty'')
                      else
                        (case QJsonDocument_fromJson e (take dataLength dataRec) of
                           Inl msg \<Rightarrow> Inr (False, pm, settings, ''Internal data.json parse error: '' @ msg)
                         | Inr dataDoc \<Rightarrow>
                             if isNull_doc dataDoc \<or> isEmpty_doc dataDoc \<or> \<not> isObject_doc dataDoc
                             then Inr (False, pm, settings, ''Internal data.json is not a valid json object'')
                             else
                               (let dataObj = object_doc dataDoc
                                in if \<not> QJsonObject_contains dataObj ''version''
                                   then Inr (False, pm, settings, ''Internal data.json has no version field'')
                                   else if toInt (QJsonObject_value dataObj ''version'') 0 \<noteq> 1
                                   then Inr (False, pm, settings, ''Internal data.json has an invalid version'')
                                   else
                                     (let settings = load_prefs e tarball settings
                                      in case load_images e (fileMap tarball) Map.empty of
                                           Inl f \<Rightarrow> Inl f
                                         | Inr imageMap \<Rightarrow>
                                             (case load_data e imageMap dataObj fname pm of
                                                Inl f \<Rightarrow> Inl f
                                              | Inr pm \<Rightarrow> Inr (True, pm, settings, reason)))))))))"

text \<open>
  \<open>ProjectModel::save\<close> (lines 302-441): the function logs a message and returns false;
  everything after the return is commented out.  The state is the registry and the file
  system.
\<close>

definition save :: "string \<Rightarrow> ProjectModel \<times> FileSystem \<Rightarrow> bool \<times> ProjectModel \<times> FileSystem" where
  "save fname st = (False, st)"

section \<open>The assets of a document\<close>





section \<open>Equality of assets\<close>

text \<open>
  The source defines \<open>operator==\<close> for \<open>AssetRef\<close> only.  Two folders, children or
  composites are equal when they agree member by member, the refs being compared with
  that operator.
\<close>

definition Folder_eq :: "Folder \<Rightarrow> Folder \<Rightarrow> bool" where
  "Folder_eq a b = (AssetRef_eq (ref a) (ref b) \<and> name a = name b \<and> AssetRef_eq (parent a) (parent b))"

definition Child_eq :: "Child \<Rightarrow> Child \<Rightarrow> bool" where
  "Child_eq a b =
     (child_parent a = child_parent b \<and> child_parentPivot a = child_parentPivot b \<and>
      child_z a = child_z b \<and> AssetRef_eq (child_part a) (child_part b) \<and>
      child_index a = child_index b \<and> child_children a = child_children b)"

definition Composite_eq :: "Composite \<Rightarrow> Composite \<Rightarrow> bool" where
  "Composite_eq a b =
     (AssetRef_eq (ref a) (ref b) \<and> name a = name b \<and> AssetRef_eq (parent a) (parent b) \<and>
      root a = root b \<and> comp_properties a = comp_properties b \<and> children a = children b \<and>
      (\<forall>k. rel_option Child_eq (childrenMap a k) (childrenMap b k)))"

section \<open>A small instance of the parameters, and example inputs\<close>

text \<open>
  An instance of the parameters on which the model can be run: the parser knows four
  documents, a uuid is written as that many letters \<open>u\<close>, the image decoder knows one
  image of 32 by 32 pixels, and assertions are enabled.
\<close>

definition fromJson_example :: "string \<Rightarrow> string + QJsonDocument" where
  \<open>fromJson_example s =
     (if s = ''{"version":2}'' then Inr (DocObject [(''version'', JDouble 2)])
      else if s = ''{"folders":{}}'' then Inr (DocObject [(''folders'', JObject [])])
      else if s = ''{"version":1}'' then Inr (DocObject [(''version'', JDouble 1)])
      else if s = ''{"folders":{"uuu":{"name":"Sprites"}},"version":1}''
      then Inr (DocObject [(''folders'', JObject [(''uuu'', JObject [(''name'', JString ''Sprites'')])]),
                           (''version'', JDouble 1)])
      else Inl ''illegal value'')\<close>

definition image_example :: QImage where
  "image_example = \<lparr>QImage_width = 32, QImage_height = 32, QImage_bits = ''pixels''\<rparr>"

definition Env_example :: Env where
  "Env_example =
     \<lparr>QJsonDocument_fromJson = fromJson_example,
      QUuid_fromString = (\<lambda>s. of_nat (length s)),
      QUuid_toString = (\<lambda>u. replicate (unat u) CHR ''u''),
      QImage_loadFromData = (\<lambda>bytes. if bytes = ''PNG'' then Some image_example else None),
      QString_toInt = (\<lambda>s. 0),
      QString_toUInt = (\<lambda>s. 0),
      MAX_PIVOTS = 4,
      AssetRef_type0 = AssetType_Part,
      QT_NO_DEBUG = False\<rparr>"

text \<open>The same instance for a build with \<open>QT_NO_DEBUG\<close>.\<close>

definition Env_release_example :: Env where
  "Env_release_example = Env_example\<lparr>QT_NO_DEBUG := True\<rparr>"

text \<open>A file system with four project files, and one path that cannot be opened.\<close>

definition FileSystem_example :: FileSystem where
  \<open>FileSystem_example path =
     (if path = ''v2.mqs''
      then Some \<lparr>ok = True, fileMap = [(''data.json'', ''{"version":2}'' @ [CHR 0x00])]\<rparr>
      else if path = ''noversion.mqs''
      then Some \<lparr>ok = True, fileMap = [(''data.json'', ''{"folders":{}}'' @ [CHR 0x00])]\<rparr>
      else if path = ''empty.mqs''
      then Some \<lparr>ok = True, fileMap = [(''data.json'', ''{"version":1}'' @ [CHR 0x00])]\<rparr>
      else if path = ''folder.mqs''
      then Some \<lparr>ok = True,
                 fileMap = [(''data.json'', ''{"folders":{"uuu":{"name":"Sprites"}},"version":1}'' @ [CHR 0x00])]\<rparr>
      else None)\<close>

text \<open>A registry that already holds one folder, with uuid 5.\<close>

definition Folder_example :: Folder where
  "Folder_example = \<lparr>ref = \<lparr>uuid = 5, type = AssetType_Folder\<rparr>, name = ''Old'',
                      parent = \<lparr>uuid = 0, type = AssetType_Part\<rparr>\<rparr>"

definition ProjectModel_example :: ProjectModel where
  "ProjectModel_example =
     \<lparr>folders = [5 \<mapsto> Folder_example], parts = Map.empty, composites = Map.empty,
      fileName = ''old.mqs''\<rparr>"

definition QSettings_example :: QSettings where
  "QSettings_example = Map.empty"

text \<open>
  A mode record with one pivot and one frame of 32 by 32 pixels, the image map that
  resolves its frame, and a part record that holds the mode under "Idle", an empty object
  under "Empty", and the three fields name, parent and properties.
\<close>

definition frame_example :: QJsonValue where
  "frame_example =
     JObject [(''ax'', JDouble 1), (''ay'', JDouble 2), (''image'', JString ''hero_idle_000.png''),
              (''p0x'', JDouble 3), (''p0y'', JDouble 4)]"

definition mode_example :: QJsonObject where
  "mode_example =
     [(''frames'', JArray [frame_example]), (''framesPerSecond'', JDouble 8),
      (''height'', JDouble 32), (''numFrames'', JDouble 1), (''numPivots'', JDouble 1),
      (''width'', JDouble 32)]"

definition imageMap_example :: "string \<rightharpoonup> QImage" where
  "imageMap_example = [''hero_idle_000.png'' \<mapsto> image_example]"

definition part_record_example :: QJsonObject where
  "part_record_example =
     [(''Empty'', JObject []), (''Idle'', JObject mode_example), (''name'', JString ''Hero''),
      (''parent'', JString ''uu''), (''properties'', JString ''hero'')]"

text \<open>The same mode record announcing two frames, in a part record of its own.\<close>

definition mode_short_example :: QJsonObject where
  "mode_short_example =
     [(''frames'', JArray [frame_example]), (''framesPerSecond'', JDouble 8),
      (''height'', JDouble 32), (''numFrames'', JDouble 2), (''numPivots'', JDouble 1),
      (''width'', JDouble 32)]"

definition part_record_short_example :: QJsonObject where
  "part_record_short_example = [(''Idle'', JObject mode_short_example), (''name'', JString ''Hero'')]"

text \<open>A mode with one frame whose \<open>numFrames\<close> is 2, and a part that holds it.\<close>

definition Mode_short_example :: Mode where
  "Mode_short_example =
     \<lparr>width = 32, height = 32, numFrames = 2, numPivots = 1, framesPerSecond = 8,
      frames = [image_example], anchor = [(1, 2)],
      pivots = [[(3, 4)], [(0, 0)], [(0, 0)], [(0, 0)]]\<rparr>"

definition Part_short_example :: Part where
  "Part_short_example =
     \<lparr>ref = \<lparr>uuid = 0, type = AssetType_Part\<rparr>, name = ''Hero'',
      parent = \<lparr>uuid = 0, type = AssetType_Part\<rparr>,
      properties = [], modes = [''Idle'' \<mapsto> Mode_short_example]\<rparr>"

text \<open>
  Two composite records: one whose children "arm" and "leg" have different names, and
  one with two children named "arm".
\<close>

definition composite_record_example :: QJsonObject where
  "composite_record_example =
     [(''name'', JString ''Body''),
      (''parts'', JArray [JObject [(''name'', JString ''arm''), (''z'', JDouble 1)],
                          JObject [(''name'', JString ''leg''), (''z'', JDouble 2)]]),
      (''root'', JDouble 0)]"

definition composite_record_dup_example :: QJsonObject where
  "composite_record_dup_example =
     [(''name'', JString ''Body''),
      (''parts'', JArray [JObject [(''name'', JString ''arm''), (''z'', JDouble 1)],
                          JObject [(''name'', JString ''arm''), (''z'', JDouble 2)]]),
      (''root'', JDouble 0)]"

text \<open>
  A folder whose parent is the folder with uuid 5, and two composites with one child
  each, named "arm" and "left arm".
\<close>

definition Folder_child_example :: Folder where
  "Folder_child_example = \<lparr>ref = \<lparr>uuid = 3, type = AssetType_Folder\<rparr>, name = ''My Sprites'',
                            parent = \<lparr>uuid = 5, type = AssetType_Folder\<rparr>\<rparr>"

definition Child_example :: Child where
  "Child_example = \<lparr>child_parent = - 1, child_parentPivot = 0, child_z = 2,
                     child_part = \<lparr>uuid = 7, type = AssetType_Part\<rparr>,
                     child_index = 0, child_children = [1, 2]\<rparr>"

definition Composite_example :: Composite where
  "Composite_example =
     \<lparr>ref = \<lparr>uuid = 9, type = AssetType_Composite\<rparr>, name = ''Body'',
      parent = \<lparr>uuid = 5, type = AssetType_Folder\<rparr>,
      root = 0, comp_properties = ''p'', children = [''arm''],
      childrenMap = [''arm'' \<mapsto> Child_example]\<rparr>"

definition Composite_space_example :: Composite where
  "Composite_space_example =
     \<lparr>ref = \<lparr>uuid = 9, type = AssetType_Composite\<rparr>, name = ''Body'',
      parent = \<lparr>uuid = 5, type = AssetType_Folder\<rparr>,
      root = 0, comp_properties = ''p'', children = [''left arm''],
      childrenMap = [''left arm'' \<mapsto> Child_example]\<rparr>"

section \<open>Properties of load and save\<close>

lemma toInt_eq_1_iff: "toInt v 0 = 1 \<longleftrightarrow> v = JDouble 1"
proof
  assume h: "toInt v 0 = 1"
  then obtain r where v: "v = JDouble r"
    by (cases v) (auto simp: toInt_def)
  from h v have w: "of_int \<lfloor>r\<rfloor> = r" and lo: "- (2 ^ 31) \<le> \<lfloor>r\<rfloor>" and hi: "\<lfloor>r\<rfloor> < 2 ^ 31"
    and eq: "(word_of_int \<lfloor>r\<rfloor> :: 32 word) = 1"
    by (auto simp: toInt_def split: if_splits)
  have "sint (word_of_int \<lfloor>r\<rfloor> :: 32 word) = \<lfloor>r\<rfloor>"
    using lo hi by (simp add: sint_sbintrunc' signed_take_bit_int_eq_self)
  with eq have "\<lfloor>r\<rfloor> = 1" by simp
  with w have "r = 1" by simp
  with v show "v = JDouble 1" by simp
next
  assume "v = JDouble 1"
  then show "toInt v 0 = 1" by (simp add: toInt_def)
qed

text \<open>
  C1.  Whatever the path and the prior state: when the file cannot be opened, the archive
  cannot be read, the record data.json is missing or empty, the parser reports an error,
  the document is not a non-empty object, or the version field is missing or is not 1,
  then \<open>load\<close> returns false, the registry (folders, parts, composites, file name) and the
  preferences are exactly as before, and the reason is one of the fixed messages of the
  source (the parse error message carries the parser's text).
\<close>

theorem load_failure_leaves_registry:
  assumes "fs fname = None
     \<or> (\<exists>tarball. fs fname = Some tarball \<and>
          (\<not> ok tarball
           \<or> map_of (fileMap tarball) ''data.json'' = None
           \<or> (\<exists>dataRec. map_of (fileMap tarball) ''data.json'' = Some dataRec \<and>
                (NUL_scan 0 dataRec = 0
                 \<or> (\<exists>msg. QJsonDocument_fromJson e (take (NUL_scan 0 dataRec) dataRec) = Inl msg)
                 \<or> (\<exists>dataDoc. QJsonDocument_fromJson e (take (NUL_scan 0 dataRec) dataRec) = Inr dataDoc \<and>
                      (isNull_doc dataDoc \<or> isEmpty_doc dataDoc \<or> \<not> isObject_doc dataDoc
                       \<or> \<not> QJsonObject_contains (object_doc dataDoc) ''version''
                       \<or> toInt (QJsonObject_value (object_doc dataDoc) ''version'') 0 \<noteq> 1))))))"
  shows "\<exists>reason'. load e fs fname (pm, settings, reason) = Inr (False, pm, settings, reason')
           \<and> (reason' \<in> {''Cannot open file'', ''Cannot read project file'',
                  ''Internal data.json is missing'', ''Internal data.json is empty'',
                  ''Internal data.json is not a valid json object'',
                  ''Internal data.json has no version field'',
                  ''Internal data.json has an invalid version''}
                \<or> (\<exists>msg. reason' = ''Internal data.json parse error: '' @ msg))"
  using assms
  unfolding load_def
  by (auto simp: Let_def split: option.splits sum.splits)

text \<open>The theorem at a project file whose version is 2.\<close>

theorem load_failure_leaves_registry_witness:
  "FileSystem_example ''v2.mqs'' \<noteq> None \<and>
   load Env_example FileSystem_example ''v2.mqs'' (ProjectModel_example, QSettings_example, [])
     = Inr (False, ProjectModel_example, QSettings_example, ''Internal data.json has an invalid version'')"
proof -
  have "\<exists>reason'. load Env_example FileSystem_example ''v2.mqs'' (ProjectModel_example, QSettings_example, [])
      = Inr (False, ProjectModel_example, QSettings_example, reason')"
    using load_failure_leaves_registry [where fs = FileSystem_example and fname = "''v2.mqs''"
        and e = Env_example and pm = ProjectModel_example and settings = QSettings_example and reason = "[]"]
    by (simp add: FileSystem_example_def Env_example_def fromJson_example_def isNull_doc_def
        isEmpty_doc_def isObject_doc_def object_doc_def QJsonObject_contains_def
        QJsonObject_value_def toInt_def) blast
  then show ?thesis
    by (simp add: load_def FileSystem_example_def Env_example_def fromJson_example_def
        isNull_doc_def isEmpty_doc_def isObject_doc_def object_doc_def QJsonObject_contains_def
        QJsonObject_value_def toInt_def)
qed

text \<open>
  C4.  When the data record parses to a JSON object that has no version field, or whose
  version is not a number, or whose version is a number other than 1, \<open>load\<close> returns
  false with one of the three reasons about the structure of the document, and the
  registry and the preferences are as before: no folder, part or composite is added.
\<close>

theorem load_version_gate:
  assumes "fs fname = Some tarball" and "ok tarball"
    and "map_of (fileMap tarball) ''data.json'' = Some dataRec"
    and "NUL_scan 0 dataRec \<noteq> 0"
    and "QJsonDocument_fromJson e (take (NUL_scan 0 dataRec) dataRec) = Inr (DocObject dataObj)"
    and "\<not> QJsonObject_contains dataObj ''version''
         \<or> (\<forall>r. QJsonObject_value dataObj ''version'' \<noteq> JDouble r)
         \<or> (\<exists>r. QJsonObject_value dataObj ''version'' = JDouble r \<and> r \<noteq> 1)"
  shows "\<exists>reason'. load e fs fname (pm, settings, reason) = Inr (False, pm, settings, reason')
           \<and> reason' \<in> {''Internal data.json is not a valid json object'',
                  ''Internal data.json has no version field'',
                  ''Internal data.json has an invalid version''}"
proof -
  from assms(6) have "QJsonObject_value dataObj ''version'' \<noteq> JDouble 1"
    by (auto simp: QJsonObject_contains_def QJsonObject_value_def)
  then have "toInt (QJsonObject_value dataObj ''version'') 0 \<noteq> 1"
    by (simp add: toInt_eq_1_iff)
  with assms(1-5) show ?thesis
    unfolding load_def by (simp add: Let_def object_doc_def)
qed

text \<open>The theorem at a project file whose document has no version field.\<close>

theorem load_version_gate_witness:
  "QJsonObject_contains [(''folders'', JObject [])] ''version'' = False \<and> 
   load Env_example FileSystem_example ''noversion.mqs'' (ProjectModel_example, QSettings_example, [])
     = Inr (False, ProjectModel_example, QSettings_example, ''Internal data.json has no version field'')"
proof -
  have "\<exists>reason'. load Env_example FileSystem_example ''noversion.mqs'' (ProjectModel_example, QSettings_example, [])
      = Inr (False, ProjectModel_example, QSettings_example, reason')"
    using load_version_gate [where fs = FileSystem_example and fname = "''noversion.mqs''"
        and e = Env_example and pm = ProjectModel_example and settings = QSettings_example and reason = "[]"
        and tarball = "\<lparr>ok = True, fileMap = [(''data.json'', ''{\"folders\":{}}'' @ [CHR 0x00])]\<rparr>"
        and dataRec = "''{\"folders\":{}}'' @ [CHR 0x00]" and dataObj = "[(''folders'', JObject [])]"]
    by (simp add: FileSystem_example_def Env_example_def fromJson_example_def QJsonObject_contains_def) blast
  then show ?thesis
    by (simp add: load_def FileSystem_example_def Env_example_def fromJson_example_def
        isNull_doc_def isEmpty_doc_def isObject_doc_def object_doc_def QJsonObject_contains_def
        QJsonObject_value_def toInt_def)
qed

text \<open>
  C3 as stated fails: \<open>save\<close> returns false, here for the example registry.
\<close>

theorem save_returns_success_counterexample:
  "fst (save ''out.mqs'' (ProjectModel_example, FileSystem_example)) = False"
  by (simp add: save_def)

text \<open>
  C3, amended.  For every registry state and path, \<open>save\<close> returns false and leaves the
  registry and the file system as they are: no document is built and no archive is
  written.  \<open>PartToJson\<close> adds nothing to the record or to the image set.
\<close>

theorem save_disabled:
  "save fname (pm, fs) = (False, pm, fs) \<and> PartToJson nm part obj imageMap = (obj, imageMap)"
  by (simp add: save_def PartToJson_def)

section \<open>Properties of the part mapper\<close>

subsection \<open>Faults\<close>




lemma JsonToPart_entries_mode_fault:
  "(k, v) \<in> set entries \<Longrightarrow> k \<noteq> ''properties'' \<Longrightarrow> toObject v \<noteq> [] \<Longrightarrow>
   JsonToPart_mode e imageMap (toObject v) = Inl f0 \<Longrightarrow>
   \<exists>f. JsonToPart_entries e imageMap entries part = Inl f"
proof (induction entries arbitrary: part)
  case Nil
  then show ?case by simp
next
  case (Cons x xs)
  obtain k' v' where x: "x = (k', v')" by (cases x)
  show ?case
  proof (cases "(k, v) = x")
    case True
    with Cons.prems x show ?thesis
      by (simp add: QJsonObject_isEmpty_def Let_def)
  next
    case False
    with Cons.prems have "(k, v) \<in> set xs" by simp
    from Cons.IH [OF this Cons.prems(2,3,4)] x show ?thesis
      by (auto simp: QJsonObject_isEmpty_def Let_def split: sum.splits)
  qed
qed

lemma JsonToPart_mode_fault:
  "(k, v) \<in> set obj \<Longrightarrow> k \<noteq> ''properties'' \<Longrightarrow> toObject v \<noteq> [] \<Longrightarrow>
   JsonToPart_mode e imageMap (toObject v) = Inl f0 \<Longrightarrow>
   \<exists>f. JsonToPart e obj imageMap part = Inl f"
  unfolding JsonToPart_def Let_def
  by (rule JsonToPart_entries_mode_fault)

lemma JsonToPart_pivots_fault:
  "JsonToPart_pivots e fo ps pv = Inl f \<Longrightarrow> f = ArrayIndexOutOfBounds"
  by (induction ps arbitrary: pv) (auto simp: Let_def split: if_splits)

lemma JsonToPart_frame_fault:
  "JsonToPart_frame e imageMap fo m = Inl f \<Longrightarrow>
   f \<noteq> Q_ASSERT_failed ''frameArray.count()==m.numFrames''"
  by (auto simp: JsonToPart_frame_def Let_def Q_ASSERT_def split: option.splits if_splits sum.splits
      dest: JsonToPart_pivots_fault)

lemma JsonToPart_frames_fault:
  "JsonToPart_frames e imageMap vs m = Inl f \<Longrightarrow>
   f \<noteq> Q_ASSERT_failed ''frameArray.count()==m.numFrames''"
  by (induction vs arbitrary: m) (auto split: sum.splits dest: JsonToPart_frame_fault)




subsection \<open>The number of frames of a decoded mode\<close>

lemma JsonToPart_frame_frames:
  "JsonToPart_frame e imageMap fo m = Inr m' \<Longrightarrow>
   length (frames m') = Suc (length (frames m)) \<and> numFrames m' = numFrames m"
  by (auto simp: JsonToPart_frame_def Let_def Q_ASSERT_def split: option.splits if_splits sum.splits)

lemma JsonToPart_frames_frames:
  "JsonToPart_frames e imageMap vs m = Inr m' \<Longrightarrow>
   length (frames m') = length (frames m) + length vs \<and> numFrames m' = numFrames m"
proof (induction vs arbitrary: m)
  case Nil
  then show ?case by simp
next
  case (Cons v vs)
  from Cons.prems obtain m1 where f: "JsonToPart_frame e imageMap (toObject v) m = Inr m1"
    and r: "JsonToPart_frames e imageMap vs m1 = Inr m'"
    by (auto split: sum.splits)
  from JsonToPart_frame_frames [OF f] Cons.IH [OF r] show ?case by simp
qed

lemma JsonToPart_pivots_returns:
  "\<forall>p \<in> set ps. p < MAX_PIVOTS e \<Longrightarrow> \<exists>pv'. JsonToPart_pivots e fo ps pv = Inr pv'"
  by (induction ps arbitrary: pv) (simp_all add: Let_def)

lemma JsonToPart_frame_returns:
  assumes "0 \<le> sint (numPivots m)" and "nat (sint (numPivots m)) \<le> MAX_PIVOTS e"
    and "imageMap (toString (QJsonObject_value fo ''image'')) = Some img"
    and "QT_NO_DEBUG e \<or> (QImage_width img = width m \<and> QImage_height img = height m)"
  shows "\<exists>m'. JsonToPart_frame e imageMap fo m = Inr m' \<and> numPivots m' = numPivots m
           \<and> width m' = width m \<and> height m' = height m"
proof -
  from assms(2) have "\<forall>p \<in> set [0 ..< nat (sint (numPivots m))]. p < MAX_PIVOTS e"
    by simp
  from JsonToPart_pivots_returns [OF this] obtain pv' where
    "JsonToPart_pivots e fo [0 ..< nat (sint (numPivots m))] (pivots m) = Inr pv'"
    by blast
  with assms(1,3,4) show ?thesis
    by (auto simp: JsonToPart_frame_def Let_def Q_ASSERT_def)
qed

lemma JsonToPart_frames_returns:
  assumes "0 \<le> sint (numPivots m)" and "nat (sint (numPivots m)) \<le> MAX_PIVOTS e"
    and "\<forall>v \<in> set vs. \<exists>img. imageMap (toString (QJsonObject_value (toObject v) ''image'')) = Some img
           \<and> (QT_NO_DEBUG e \<or> (QImage_width img = width m \<and> QImage_height img = height m))"
  shows "\<exists>m'. JsonToPart_frames e imageMap vs m = Inr m'"
  using assms
proof (induction vs arbitrary: m)
  case Nil
  then show ?case by simp
next
  case (Cons v vs)
  from Cons.prems(3) obtain img where
    i: "imageMap (toString (QJsonObject_value (toObject v) ''image'')) = Some img"
    and w: "QT_NO_DEBUG e \<or> (QImage_width img = width m \<and> QImage_height img = height m)"
    by auto
  from JsonToPart_frame_returns [of m e imageMap "toObject v" img, OF Cons.prems(1,2) i w] obtain m1 where
    f: "JsonToPart_frame e imageMap (toObject v) m = Inr m1" and n1: "numPivots m1 = numPivots m"
    and w1: "width m1 = width m" and h1: "height m1 = height m"
    by blast
  from Cons.prems(3) w1 h1 have
    "\<forall>v \<in> set vs. \<exists>img. imageMap (toString (QJsonObject_value (toObject v) ''image'')) = Some img
           \<and> (QT_NO_DEBUG e \<or> (QImage_width img = width m1 \<and> QImage_height img = height m1))"
    by simp
  moreover from Cons.prems(1,2) n1 have "0 \<le> sint (numPivots m1)" "nat (sint (numPivots m1)) \<le> MAX_PIVOTS e"
    by simp_all
  ultimately have "\<exists>m'. JsonToPart_frames e imageMap vs m1 = Inr m'"
    by (intro Cons.IH)
  with f show ?case by simp
qed

text \<open>
  C7, amended.  The check of the number of frames is the assertion of line 488.  In a
  build without \<open>QT_NO_DEBUG\<close> the assertion fails exactly when the length of the frames
  array of a mode record differs from its numFrames field, and then the decoding of the
  part that holds the mode record does not return: the process ends, and no schema error
  is reported, the function having no error result.  In a build with \<open>QT_NO_DEBUG\<close> the
  assertion never fails: the difference is not detected, a mode that is decoded has one
  frame for each entry of the array and the numFrames of the record, and the mode is
  decoded whenever every frame entry names an image of the map and numPivots is between
  0 and \<open>MAX_PIVOTS\<close>.
\<close>

theorem JsonToPart_frames_count_assertion:
  "(\<not> QT_NO_DEBUG e \<longrightarrow>
      (JsonToPart_mode e imageMap modeObject = Inl (Q_ASSERT_failed ''frameArray.count()==m.numFrames'')
         \<longleftrightarrow> int (length (toArray (QJsonObject_value modeObject ''frames'')))
               \<noteq> sint (toInt (QJsonObject_value modeObject ''numFrames'') 0))
    \<and> ((k, JObject modeObject) \<in> set obj \<and> k \<noteq> ''properties'' \<and> modeObject \<noteq> []
          \<and> int (length (toArray (QJsonObject_value modeObject ''frames'')))
               \<noteq> sint (toInt (QJsonObject_value modeObject ''numFrames'') 0)
        \<longrightarrow> (\<exists>f. JsonToPart e obj imageMap part = Inl f)))
   \<and> (QT_NO_DEBUG e \<longrightarrow>
        JsonToPart_mode e imageMap modeObject \<noteq> Inl (Q_ASSERT_failed ''frameArray.count()==m.numFrames'')
      \<and> (\<forall>m. JsonToPart_mode e imageMap modeObject = Inr m \<longrightarrow>
            length (frames m) = length (toArray (QJsonObject_value modeObject ''frames''))
          \<and> numFrames m = toInt (QJsonObject_value modeObject ''numFrames'') 0)
      \<and> (0 \<le> sint (toInt (QJsonObject_value modeObject ''numPivots'') 0)
          \<and> nat (sint (toInt (QJsonObject_value modeObject ''numPivots'') 0)) \<le> MAX_PIVOTS e
          \<and> (\<forall>v \<in> set (toArray (QJsonObject_value modeObject ''frames'')).
                imageMap (toString (QJsonObject_value (toObject v) ''image'')) \<noteq> None)
        \<longrightarrow> (\<exists>m. JsonToPart_mode e imageMap modeObject = Inr m)))"
    (is "(_ \<longrightarrow> ?iff \<and> ?abort) \<and> (_ \<longrightarrow> ?never \<and> ?keeps \<and> ?returns)")
proof -
  let ?m0 = "\<lparr>width = toInt (QJsonObject_value modeObject ''width'') 0,
               height = toInt (QJsonObject_value modeObject ''height'') 0,
               numFrames = toInt (QJsonObject_value modeObject ''numFrames'') 0,
               numPivots = toInt (QJsonObject_value modeObject ''numPivots'') 0,
               framesPerSecond = toInt (QJsonObject_value modeObject ''framesPerSecond'') 0,
               frames = [], anchor = [], pivots = replicate (MAX_PIVOTS e) []\<rparr>"
  let ?fs = "toArray (QJsonObject_value modeObject ''frames'')"
  have debug: "?iff \<and> ?abort" if d: "\<not> QT_NO_DEBUG e"
  proof
    from d show ?iff
      by (auto simp: JsonToPart_mode_def Let_def Q_ASSERT_def dest: JsonToPart_frames_fault)
    show ?abort
    proof
      assume h: "(k, JObject modeObject) \<in> set obj \<and> k \<noteq> ''properties'' \<and> modeObject \<noteq> []
          \<and> int (length ?fs) \<noteq> sint (toInt (QJsonObject_value modeObject ''numFrames'') 0)"
      with d have "JsonToPart_mode e imageMap modeObject
          = Inl (Q_ASSERT_failed ''frameArray.count()==m.numFrames'')"
        by (simp add: JsonToPart_mode_def Let_def Q_ASSERT_def)
      with h show "\<exists>f. JsonToPart e obj imageMap part = Inl f"
        using JsonToPart_mode_fault [of k "JObject modeObject" obj e imageMap _ part]
        by (simp add: toObject_def)
    qed
  qed
  have release: "?never \<and> ?keeps \<and> ?returns" if r: "QT_NO_DEBUG e"
  proof -
    from r have run: "JsonToPart_mode e imageMap modeObject = JsonToPart_frames e imageMap ?fs ?m0"
      by (simp add: JsonToPart_mode_def Let_def Q_ASSERT_def)
    have ?never
      unfolding run using JsonToPart_frames_fault [of e imageMap ?fs ?m0] by blast
    moreover have ?keeps
      unfolding run using JsonToPart_frames_frames [of e imageMap ?fs ?m0] by auto
    moreover have ?returns
    proof
      assume h: "0 \<le> sint (toInt (QJsonObject_value modeObject ''numPivots'') 0)
          \<and> nat (sint (toInt (QJsonObject_value modeObject ''numPivots'') 0)) \<le> MAX_PIVOTS e
          \<and> (\<forall>v \<in> set ?fs. imageMap (toString (QJsonObject_value (toObject v) ''image'')) \<noteq> None)"
      then have a: "0 \<le> sint (numPivots ?m0)" and b: "nat (sint (numPivots ?m0)) \<le> MAX_PIVOTS e"
        by simp_all
      from h r have c: "\<forall>v \<in> set ?fs. \<exists>img. imageMap (toString (QJsonObject_value (toObject v) ''image'')) = Some img
           \<and> (QT_NO_DEBUG e \<or> (QImage_width img = width ?m0 \<and> QImage_height img = height ?m0))"
        by auto
      from JsonToPart_frames_returns [OF a b c] show "\<exists>m. JsonToPart_mode e imageMap modeObject = Inr m"
        unfolding run .
    qed
    ultimately show ?thesis by blast
  qed
  from debug release show ?thesis by blast
qed

text \<open>
  The theorem at a mode record that announces two frames and holds one, in a build with
  assertions and in a build without.
\<close>

theorem JsonToPart_frames_count_assertion_witness:
  "\<not> QT_NO_DEBUG Env_example \<and> QT_NO_DEBUG Env_release_example
   \<and> (''Idle'', JObject mode_short_example) \<in> set part_record_short_example
   \<and> length (toArray (QJsonObject_value mode_short_example ''frames'')) = 1
   \<and> toInt (QJsonObject_value mode_short_example ''numFrames'') 0 = 2
   \<and> JsonToPart_mode Env_example imageMap_example mode_short_example
        = Inl (Q_ASSERT_failed ''frameArray.count()==m.numFrames'')
   \<and> (\<exists>f. JsonToPart Env_example part_record_short_example imageMap_example (Part_new Env_example) = Inl f)
   \<and> (\<exists>m. JsonToPart_mode Env_release_example imageMap_example mode_short_example = Inr m
          \<and> length (frames m) = 1 \<and> numFrames m = 2)"
proof -
  have dbg: "\<not> QT_NO_DEBUG Env_example" and rel: "QT_NO_DEBUG Env_release_example"
    by (simp_all add: Env_example_def Env_release_example_def)
  have a: "(''Idle'', JObject mode_short_example) \<in> set part_record_short_example"
    by (simp add: part_record_short_example_def)
  have c: "mode_short_example \<noteq> []" by (simp add: mode_short_example_def)
  have fr: "toArray (QJsonObject_value mode_short_example ''frames'') = [frame_example]"
    by (simp add: mode_short_example_def QJsonObject_value_def toArray_def)
  have l: "length (toArray (QJsonObject_value mode_short_example ''frames'')) = 1"
    by (simp add: fr)
  have n: "toInt (QJsonObject_value mode_short_example ''numFrames'') 0 = 2"
    by (simp add: mode_short_example_def QJsonObject_value_def toInt_def)
  have d: "int (length (toArray (QJsonObject_value mode_short_example ''frames'')))
            \<noteq> sint (toInt (QJsonObject_value mode_short_example ''numFrames'') 0)"
    by (simp add: l n)
  have np: "toInt (QJsonObject_value mode_short_example ''numPivots'') 0 = 1"
    by (simp add: mode_short_example_def QJsonObject_value_def toInt_def)
  have pre: "0 \<le> sint (toInt (QJsonObject_value mode_short_example ''numPivots'') 0)
          \<and> nat (sint (toInt (QJsonObject_value mode_short_example ''numPivots'') 0)) \<le> MAX_PIVOTS Env_release_example
          \<and> (\<forall>v \<in> set (toArray (QJsonObject_value mode_short_example ''frames'')).
                imageMap_example (toString (QJsonObject_value (toObject v) ''image'')) \<noteq> None)"
    unfolding fr np
    by (simp add: Env_release_example_def Env_example_def frame_example_def imageMap_example_def
        QJsonObject_value_def toObject_def toString_def)
  from JsonToPart_frames_count_assertion [of Env_example imageMap_example mode_short_example
      "''Idle''" part_record_short_example "Part_new Env_example"] dbg a c d
  have one: "JsonToPart_mode Env_example imageMap_example mode_short_example
        = Inl (Q_ASSERT_failed ''frameArray.count()==m.numFrames'')"
    and two: "\<exists>f. JsonToPart Env_example part_record_short_example imageMap_example (Part_new Env_example) = Inl f"
    by blast+
  from JsonToPart_frames_count_assertion [of Env_release_example imageMap_example mode_short_example
      "''Idle''" part_record_short_example "Part_new Env_release_example"] rel pre
  obtain m where m: "JsonToPart_mode Env_release_example imageMap_example mode_short_example = Inr m"
    and "length (frames m) = length (toArray (QJsonObject_value mode_short_example ''frames''))"
    and "numFrames m = toInt (QJsonObject_value mode_short_example ''numFrames'') 0"
    by blast
  then have three: "\<exists>m. JsonToPart_mode Env_release_example imageMap_example mode_short_example = Inr m
          \<and> length (frames m) = 1 \<and> numFrames m = 2"
    by (simp add: l n)
  from dbg rel a l n one two three show ?thesis by blast
qed

lemma replicate_4: "replicate 4 x = [x, x, x, x]"
  by (simp add: numeral_eq_Suc)

text \<open>
  C7 as stated fails: in a build with \<open>QT_NO_DEBUG\<close> the mode record that announces two
  frames and holds one is decoded, without any error, to a mode with one frame whose
  \<open>numFrames\<close> is 2, and the part that holds it is returned.
\<close>

theorem JsonToPart_frames_count_counterexample:
  "JsonToPart_mode Env_release_example imageMap_example mode_short_example = Inr Mode_short_example
   \<and> JsonToPart Env_release_example part_record_short_example imageMap_example
        (Part_new Env_release_example) = Inr Part_short_example
   \<and> length (frames Mode_short_example) = 1 \<and> numFrames Mode_short_example = 2"
  by (simp add: JsonToPart_def JsonToPart_mode_def JsonToPart_frame_def Q_ASSERT_def
      part_record_short_example_def mode_short_example_def frame_example_def imageMap_example_def
      image_example_def Mode_short_example_def Part_short_example_def
      Env_release_example_def Env_example_def Part_new_def AssetRef_new_def
      QJsonObject_value_def QJsonObject_contains_def QJsonObject_isEmpty_def toObject_def
      toArray_def toString_def toInt_def toVariant_toInt_def Let_def QString_number.simps upt_rec
      replicate_4)

subsection \<open>Which entries of a part record are modes\<close>

lemma JsonToPart_entries_modes_dom:
  "JsonToPart_entries e imageMap entries part = Inr part' \<Longrightarrow>
   dom (modes part') =
     dom (modes part) \<union> {k. k \<noteq> ''properties'' \<and> (\<exists>v. (k, v) \<in> set entries \<and> toObject v \<noteq> [])}"
proof (induction entries arbitrary: part)
  case Nil
  then show ?case by auto
next
  case (Cons x xs)
  obtain k' v' where x: "x = (k', v')" by (cases x)
  let ?S = "\<lambda>ys. {k. k \<noteq> ''properties'' \<and> (\<exists>v. (k, v) \<in> set ys \<and> toObject v \<noteq> [])}"
  show ?case
  proof (cases "k' = ''properties''")
    case True
    with Cons.prems x have "JsonToPart_entries e imageMap xs (part\<lparr>properties := toString v'\<rparr>) = Inr part'"
      by simp
    from Cons.IH [OF this] have "dom (modes part') = dom (modes part) \<union> ?S xs" by simp
    moreover from True x have "?S (x # xs) = ?S xs" by auto
    ultimately show ?thesis by simp
  next
    case notprop: False
    show ?thesis
    proof (cases "toObject v' = []")
      case True
      with Cons.prems x notprop have "JsonToPart_entries e imageMap xs part = Inr part'"
        by (simp add: QJsonObject_isEmpty_def Let_def)
      from Cons.IH [OF this] have "dom (modes part') = dom (modes part) \<union> ?S xs" by simp
      moreover from True x have "?S (x # xs) = ?S xs" by auto
      ultimately show ?thesis by simp
    next
      case False
      with Cons.prems x notprop obtain m where
        "JsonToPart_entries e imageMap xs (part\<lparr>modes := (modes part)(k' \<mapsto> m)\<rparr>) = Inr part'"
        by (auto simp: QJsonObject_isEmpty_def Let_def split: sum.splits)
      note ih = Cons.IH [OF this]
      have sel: "modes (part\<lparr>modes := (modes part)(k' \<mapsto> m)\<rparr>) = (modes part)(k' \<mapsto> m)"
        by simp
      have "dom (modes part') = insert k' (dom (modes part)) \<union> ?S xs"
        unfolding ih sel by simp
      moreover from False x notprop have "?S (x # xs) = insert k' (?S xs)" by auto
      ultimately show ?thesis by simp
    qed
  qed
qed

lemma JsonToPart_entries_no_modes:
  "\<forall>(k, v) \<in> set entries. k = ''properties'' \<or> toObject v = [] \<Longrightarrow>
   \<exists>p. JsonToPart_entries e imageMap entries part = Inr p \<and> modes p = modes part"
proof (induction entries arbitrary: part)
  case Nil
  then show ?case by simp
next
  case (Cons x xs)
  obtain k' v' where x: "x = (k', v')" by (cases x)
  from Cons.prems have rest: "\<forall>(k, v) \<in> set xs. k = ''properties'' \<or> toObject v = []"
    by simp
  show ?case
  proof (cases "k' = ''properties''")
    case True
    from Cons.IH [OF rest, of "part\<lparr>properties := toString v'\<rparr>"] True x
    show ?thesis by simp
  next
    case False
    with Cons.prems x have "toObject v' = []" by simp
    with Cons.IH [OF rest, of part] False x
    show ?thesis by (simp add: QJsonObject_isEmpty_def Let_def)
  qed
qed

lemma toObject_nonempty_iff: "toObject v \<noteq> [] \<longleftrightarrow> (\<exists>obj. v = JObject obj \<and> obj \<noteq> [])"
  by (cases v) (simp_all add: toObject_def)

text \<open>
  C10.  When \<open>JsonToPart\<close> returns, the keys of the part's mode map are the keys it
  had before together with exactly the keys of the record, other than "properties", whose
  value is a non-empty JSON object: no other key is excluded by name, so "name" and
  "parent" are modes when their values are non-empty objects and are skipped when they
  are strings.  An entry whose value is an empty object (or no object) adds no mode and
  causes no fault: a record with no other entries is decoded with the mode map unchanged.
\<close>

theorem JsonToPart_mode_classification:
  "(\<forall>part'. JsonToPart e obj imageMap part = Inr part' \<longrightarrow>
      dom (modes part') =
        dom (modes part) \<union>
        {k. k \<noteq> ''properties'' \<and> (\<exists>modeObject. (k, JObject modeObject) \<in> set obj \<and> modeObject \<noteq> [])})
   \<and> ((\<forall>(k, v) \<in> set obj. k = ''properties'' \<or> toObject v = []) \<longrightarrow>
        (\<exists>part'. JsonToPart e obj imageMap part = Inr part' \<and> modes part' = modes part))"
proof -
  define part1 where "part1 =
     (let part = part\<lparr>name := toString (QJsonObject_value obj ''name'')\<rparr>
      in if QJsonObject_contains obj ''parent''
         then part\<lparr>parent := (parent part)
                \<lparr>uuid := QUuid_fromString e (toString (QJsonObject_value obj ''parent'')),
                 type := AssetType_Folder\<rparr>\<rparr>
         else part)"
  have m1: "modes part1 = modes part"
    by (simp add: part1_def Let_def)
  have run: "JsonToPart e obj imageMap part = JsonToPart_entries e imageMap obj part1"
    by (simp add: JsonToPart_def part1_def Let_def)
  have sets: "{k. k \<noteq> ''properties'' \<and> (\<exists>v. (k, v) \<in> set obj \<and> toObject v \<noteq> [])}
     = {k. k \<noteq> ''properties'' \<and> (\<exists>modeObject. (k, JObject modeObject) \<in> set obj \<and> modeObject \<noteq> [])}"
    by (auto simp: toObject_nonempty_iff)
  show ?thesis
  proof (intro conjI allI impI)
    fix part'
    assume "JsonToPart e obj imageMap part = Inr part'"
    with run have "JsonToPart_entries e imageMap obj part1 = Inr part'" by simp
    from JsonToPart_entries_modes_dom [OF this] m1 sets
    show "dom (modes part') =
        dom (modes part) \<union>
        {k. k \<noteq> ''properties'' \<and> (\<exists>modeObject. (k, JObject modeObject) \<in> set obj \<and> modeObject \<noteq> [])}"
      by simp
  next
    assume h: "\<forall>(k, v) \<in> set obj. k = ''properties'' \<or> toObject v = []"
    from JsonToPart_entries_no_modes [OF h, of e imageMap part1] run m1
    show "\<exists>part'. JsonToPart e obj imageMap part = Inr part' \<and> modes part' = modes part"
      by simp
  qed
qed

text \<open>The definitions that evaluate the part mapper on the example inputs.\<close>

lemmas example_defs =
  part_record_example_def mode_example_def frame_example_def imageMap_example_def image_example_def
  Env_example_def Part_new_def AssetRef_new_def

lemmas mapper_defs =
  JsonToPart_def JsonToPart_mode_def JsonToPart_frame_def Q_ASSERT_def
  QJsonObject_value_def QJsonObject_contains_def QJsonObject_isEmpty_def toObject_def
  toArray_def toString_def toInt_def toVariant_toInt_def Let_def QString_number.simps

lemma upt_1_4: "[Suc 0 ..< 4] = [Suc 0, 2, 3]"
  by (simp add: upt_rec)

lemma ex_run: "\<exists>part'. JsonToPart Env_example part_record_example imageMap_example (Part_new Env_example) = Inr part'"
  apply (simp add: example_defs mapper_defs upt_1_4)
  done

text \<open>
  The theorem at the example part record, whose only mode is "Idle", and at a record
  that holds an empty object and a name.
\<close>

theorem JsonToPart_mode_classification_witness:
  "(\<exists>part'. JsonToPart Env_example part_record_example imageMap_example (Part_new Env_example) = Inr part'
      \<and> dom (modes part') = {''Idle''})
   \<and> (\<exists>part'. JsonToPart Env_example [(''Empty'', JObject []), (''name'', JString ''Hero'')]
                 imageMap_example (Part_new Env_example) = Inr part'
      \<and> modes part' = Map.empty)"
proof -
  note cls = JsonToPart_mode_classification [of Env_example _ imageMap_example "Part_new Env_example"]
  obtain part' where run: "JsonToPart Env_example part_record_example imageMap_example (Part_new Env_example) = Inr part'"
    using ex_run by blast
  have s: "{k. k \<noteq> ''properties'' \<and> (\<exists>modeObject. (k, JObject modeObject) \<in> set part_record_example \<and> modeObject \<noteq> [])}
     = {''Idle''}"
    by (auto simp: part_record_example_def mode_example_def)
  from cls [of part_record_example] run have "dom (modes part') = dom (modes (Part_new Env_example)) \<union> {''Idle''}"
    unfolding s by blast
  then have a: "dom (modes part') = {''Idle''}"
    by (simp add: Part_new_def)
  have h: "\<forall>(k, v) \<in> set [(''Empty'', JObject []), (''name'', JString ''Hero'')]. k = ''properties'' \<or> toObject v = []"
    by (simp add: toObject_def)
  with cls [of "[(''Empty'', JObject []), (''name'', JString ''Hero'')]"]
  have b: "\<exists>part'. JsonToPart Env_example [(''Empty'', JObject []), (''name'', JString ''Hero'')]
                 imageMap_example (Part_new Env_example) = Inr part'
      \<and> modes part' = modes (Part_new Env_example)"
    by blast
  from run a b show ?thesis by (auto simp: Part_new_def)
qed

subsection \<open>The pivots of a decoded mode\<close>

lemma sint_one_32: "sint (1 :: 32 word) = 1"
  by simp








section \<open>Properties of the composite mapper\<close>

lemma JsonToComposite_parts_children:
  "children (JsonToComposite_parts e vs idx cmp) =
     children cmp @ map (\<lambda>v. toString (QJsonObject_value (toObject v) ''name'')) vs"
  by (induction vs arbitrary: idx cmp) (simp_all add: Let_def)

lemma JsonToComposite_parts_childrenMap_other:
  "nm \<notin> (\<lambda>v. toString (QJsonObject_value (toObject v) ''name'')) ` set vs \<Longrightarrow>
   childrenMap (JsonToComposite_parts e vs idx cmp) nm = childrenMap cmp nm"
  by (induction vs arbitrary: idx cmp) (simp_all add: Let_def)

lemma JsonToComposite_parts_childrenMap:
  "nm \<in> (\<lambda>v. toString (QJsonObject_value (toObject v) ''name'')) ` set vs \<Longrightarrow>
   \<exists>i < length vs.
       toString (QJsonObject_value (toObject (vs ! i)) ''name'') = nm
     \<and> nm \<notin> (\<lambda>v. toString (QJsonObject_value (toObject v) ''name'')) ` set (drop (Suc i) vs)
     \<and> childrenMap (JsonToComposite_parts e vs idx cmp) nm
         = Some (JsonToComposite_child e (toObject (vs ! i)) (idx + of_nat i))"
proof (induction vs arbitrary: idx cmp)
  case Nil
  then show ?case by simp
next
  case (Cons v vs)
  let ?nm = "\<lambda>v. toString (QJsonObject_value (toObject v) ''name'')"
  let ?cmp1 = "cmp\<lparr>children := children cmp @ [?nm v],
                   childrenMap := (childrenMap cmp)(?nm v \<mapsto> JsonToComposite_child e (toObject v) idx)\<rparr>"
  have step: "JsonToComposite_parts e (v # vs) idx cmp = JsonToComposite_parts e vs (idx + 1) ?cmp1"
    by (simp add: Let_def)
  show ?case
  proof (cases "nm \<in> ?nm ` set vs")
    case True
    from Cons.IH [OF True, of "idx + 1" ?cmp1] obtain i where i: "i < length vs"
      and a: "?nm (vs ! i) = nm" and b: "nm \<notin> ?nm ` set (drop (Suc i) vs)"
      and c: "childrenMap (JsonToComposite_parts e vs (idx + 1) ?cmp1) nm
               = Some (JsonToComposite_child e (toObject (vs ! i)) (idx + 1 + of_nat i))"
      by blast
    have "Suc i < length (v # vs)" using i by simp
    moreover have "?nm ((v # vs) ! Suc i) = nm" using a by simp
    moreover have "nm \<notin> ?nm ` set (drop (Suc (Suc i)) (v # vs))" using b by simp
    moreover have "childrenMap (JsonToComposite_parts e (v # vs) idx cmp) nm
         = Some (JsonToComposite_child e (toObject ((v # vs) ! Suc i)) (idx + of_nat (Suc i)))"
      using c step by (simp add: add.assoc)
    ultimately show ?thesis by blast
  next
    case False
    with Cons.prems have nm: "?nm v = nm" by auto
    from JsonToComposite_parts_childrenMap_other [OF False, of e "idx + 1" ?cmp1] nm step
    have "childrenMap (JsonToComposite_parts e (v # vs) idx cmp) nm
         = Some (JsonToComposite_child e (toObject ((v # vs) ! 0)) (idx + of_nat 0))"
      by simp
    moreover have "nm \<notin> ?nm ` set (drop (Suc 0) (v # vs))" using False by simp
    moreover have "?nm ((v # vs) ! 0) = nm" using nm by simp
    moreover have "0 < length (v # vs)" by simp
    ultimately show ?thesis by blast
  qed
qed

lemma JsonToComposite_parts_dom:
  "dom (childrenMap (JsonToComposite_parts e vs idx cmp)) =
     dom (childrenMap cmp) \<union> (\<lambda>v. toString (QJsonObject_value (toObject v) ''name'')) ` set vs"
proof (induction vs arbitrary: idx cmp)
  case Nil
  then show ?case by simp
next
  case (Cons v vs)
  show ?case
    unfolding JsonToComposite_parts.simps Let_def Cons.IH by simp
qed

lemma of_nat_32_inj:
  "i < 2 ^ 32 \<Longrightarrow> j < 2 ^ 32 \<Longrightarrow> (of_nat i :: 32 word) = of_nat j \<Longrightarrow> i = j"
proof -
  assume i: "i < 2 ^ 32" and j: "j < 2 ^ 32" and eq: "(of_nat i :: 32 word) = of_nat j"
  from eq have "unat (of_nat i :: 32 word) = unat (of_nat j :: 32 word)" by simp
  with i j show "i = j" by (simp add: unat_of_nat)
qed

text \<open>
  C9, amended.  For every composite record decoded into a composite that has no children
  yet (as \<open>load\<close> creates it): the ordered list holds the names of the records in
  document order; the names in the list are exactly the keys of the map, so every name
  has one entry and every key occurs in the list; the entry of a key carries the index of
  the last record with that name, and so the index values of the entries are pairwise
  different; and when the names of the records are pairwise different, every key occurs
  exactly once in the list and the child at position i has index i.  A name that occurs
  in several records occurs as often in the list.  (The array has fewer than 2^32
  entries, its count being an int.)
\<close>

theorem JsonToComposite_sync:
  assumes "children c0 = []" and "childrenMap c0 = Map.empty"
    and "length (toArray (QJsonObject_value obj ''parts'')) < 2 ^ 32"
  shows "children (JsonToComposite e obj c0)
           = map (\<lambda>v. toString (QJsonObject_value (toObject v) ''name''))
               (toArray (QJsonObject_value obj ''parts''))
       \<and> dom (childrenMap (JsonToComposite e obj c0)) = set (children (JsonToComposite e obj c0))
       \<and> (\<forall>nm \<in> dom (childrenMap (JsonToComposite e obj c0)).
             \<exists>i < length (children (JsonToComposite e obj c0)).
                 children (JsonToComposite e obj c0) ! i = nm
               \<and> nm \<notin> set (drop (Suc i) (children (JsonToComposite e obj c0)))
               \<and> child_index (the (childrenMap (JsonToComposite e obj c0) nm)) = of_nat i)
       \<and> inj_on (\<lambda>nm. child_index (the (childrenMap (JsonToComposite e obj c0) nm)))
             (dom (childrenMap (JsonToComposite e obj c0)))
       \<and> (distinct (map (\<lambda>v. toString (QJsonObject_value (toObject v) ''name''))
                      (toArray (QJsonObject_value obj ''parts''))) \<longrightarrow>
             distinct (children (JsonToComposite e obj c0))
           \<and> (\<forall>i < length (children (JsonToComposite e obj c0)).
                 \<exists>ch. childrenMap (JsonToComposite e obj c0) (children (JsonToComposite e obj c0) ! i) = Some ch
                   \<and> child_index ch = of_nat i))"
proof -
  let ?nm = "\<lambda>v. toString (QJsonObject_value (toObject v) ''name'')"
  let ?vs = "toArray (QJsonObject_value obj ''parts'')"
  define c where "c = JsonToComposite e obj c0"
  obtain c1 where run: "c = JsonToComposite_parts e ?vs 0 c1"
    and ch1: "children c1 = []" and cm1: "childrenMap c1 = Map.empty"
    using assms(1,2) by (simp add: c_def JsonToComposite_def Let_def)
  have names: "children c = map ?nm ?vs"
    by (simp add: run JsonToComposite_parts_children ch1)
  have doms: "dom (childrenMap c) = set (children c)"
    by (simp add: names) (simp add: run JsonToComposite_parts_dom cm1)
  have last: "\<exists>i < length (children c). children c ! i = nm
               \<and> nm \<notin> set (drop (Suc i) (children c))
               \<and> child_index (the (childrenMap c nm)) = of_nat i"
    if "nm \<in> dom (childrenMap c)" for nm
  proof -
    from that doms names have "nm \<in> ?nm ` set ?vs" by simp
    from JsonToComposite_parts_childrenMap [OF this, of e 0 c1] obtain i where i: "i < length ?vs"
      and a: "?nm (?vs ! i) = nm" and b: "nm \<notin> ?nm ` set (drop (Suc i) ?vs)"
      and d: "childrenMap c nm = Some (JsonToComposite_child e (toObject (?vs ! i)) (0 + of_nat i))"
      unfolding run by blast
    from i a have "children c ! i = nm" by (simp add: names)
    moreover from b have "nm \<notin> set (drop (Suc i) (children c))"
      by (simp add: names drop_map)
    moreover from d have "child_index (the (childrenMap c nm)) = of_nat i"
      by (simp add: JsonToComposite_child_def)
    moreover from i have "i < length (children c)" by (simp add: names)
    ultimately show ?thesis by blast
  qed
  have len: "length (children c) < 2 ^ 32"
    using assms(3) by (simp add: names)
  have inj: "inj_on (\<lambda>nm. child_index (the (childrenMap c nm))) (dom (childrenMap c))"
  proof (rule inj_onI)
    fix x y
    assume x: "x \<in> dom (childrenMap c)" and y: "y \<in> dom (childrenMap c)"
      and eq: "child_index (the (childrenMap c x)) = child_index (the (childrenMap c y))"
    from last [OF x] obtain i where i: "i < length (children c)" and xi: "children c ! i = x"
      and ix: "child_index (the (childrenMap c x)) = of_nat i" by blast
    from last [OF y] obtain j where j: "j < length (children c)" and yj: "children c ! j = y"
      and jy: "child_index (the (childrenMap c y)) = of_nat j" by blast
    from eq ix jy have "(of_nat i :: 32 word) = of_nat j" by simp
    with i j len have "i = j" by (intro of_nat_32_inj) simp_all
    with xi yj show "x = y" by simp
  qed
  have dist: "distinct (children c)
           \<and> (\<forall>i < length (children c).
                 \<exists>ch. childrenMap c (children c ! i) = Some ch \<and> child_index ch = of_nat i)"
    if d: "distinct (map ?nm ?vs)"
  proof (intro conjI allI impI)
    from d show dc: "distinct (children c)" by (simp add: names)
    fix i
    assume i: "i < length (children c)"
    then have mem: "children c ! i \<in> dom (childrenMap c)"
      by (simp add: doms)
    from last [OF mem] obtain j where j: "j < length (children c)"
      and e1: "children c ! j = children c ! i"
      and e2: "child_index (the (childrenMap c (children c ! i))) = of_nat j" by blast
    from dc i j e1 have "j = i" by (simp add: nth_eq_iff_index_eq)
    with e2 mem show "\<exists>ch. childrenMap c (children c ! i) = Some ch \<and> child_index ch = of_nat i"
      by auto
  qed
  from names doms last inj dist show ?thesis
    unfolding c_def by blast
qed

text \<open>The definitions that evaluate the composite decoder on the example records.\<close>

lemmas composite_defs =
  JsonToComposite_def JsonToComposite_child_def Composite_new_def AssetRef_new_def
  QJsonObject_value_def QJsonObject_contains_def toObject_def toArray_def toString_def
  toVariant_toInt_def Let_def

text \<open>
  C9 as stated fails: on the record with two children named "arm" the key "arm" of the
  map occurs twice in the ordered list.
\<close>

theorem JsonToComposite_sync_counterexample:
  "\<not> distinct (children (JsonToComposite Env_example composite_record_dup_example (Composite_new Env_example)))
   \<and> children (JsonToComposite Env_example composite_record_dup_example (Composite_new Env_example))
     = [''arm'', ''arm'']
   \<and> dom (childrenMap (JsonToComposite Env_example composite_record_dup_example (Composite_new Env_example)))
     = {''arm''}"
  by (simp add: composite_record_dup_example_def composite_defs)

text \<open>The theorem at the record with the children "arm" and "leg".\<close>

theorem JsonToComposite_sync_witness:
  "children (Composite_new Env_example) = []
   \<and> childrenMap (Composite_new Env_example) = Map.empty
   \<and> children (JsonToComposite Env_example composite_record_example (Composite_new Env_example))
       = [''arm'', ''leg'']
   \<and> dom (childrenMap (JsonToComposite Env_example composite_record_example (Composite_new Env_example)))
       = {''arm'', ''leg''}
   \<and> inj_on (\<lambda>nm. child_index (the (childrenMap (JsonToComposite Env_example composite_record_example
                 (Composite_new Env_example)) nm))) {''arm'', ''leg''}"
proof -
  have a: "children (Composite_new Env_example) = []"
    and b: "childrenMap (Composite_new Env_example) = Map.empty"
    by (simp_all add: Composite_new_def)
  have ps: "toArray (QJsonObject_value composite_record_example ''parts'')
     = [JObject [(''name'', JString ''arm''), (''z'', JDouble 1)],
        JObject [(''name'', JString ''leg''), (''z'', JDouble 2)]]"
    by (simp add: composite_record_example_def QJsonObject_value_def toArray_def)
  have c: "length (toArray (QJsonObject_value composite_record_example ''parts'')) < 2 ^ 32"
    unfolding ps by simp
  note w = JsonToComposite_sync [OF a b c, of Env_example]
  from w have ch: "children (JsonToComposite Env_example composite_record_example (Composite_new Env_example))
       = [''arm'', ''leg'']"
    unfolding ps by (simp add: QJsonObject_value_def toObject_def toString_def)
  from w have d: "dom (childrenMap (JsonToComposite Env_example composite_record_example (Composite_new Env_example)))
       = set (children (JsonToComposite Env_example composite_record_example (Composite_new Env_example)))"
    by blast
  from w have i: "inj_on (\<lambda>nm. child_index (the (childrenMap (JsonToComposite Env_example composite_record_example
                 (Composite_new Env_example)) nm)))
       (dom (childrenMap (JsonToComposite Env_example composite_record_example (Composite_new Env_example))))"
    by blast
  from a b ch d i show ?thesis by simp
qed

section \<open>The round trip through the folder and composite mappers\<close>

lemma map_of_QJsonObject_insert:
  "map_of (QJsonObject_insert k v obj) k' = (if k' = k then Some v else map_of obj k')"
  by (induction obj) auto

lemma QJsonObject_value_insert:
  "QJsonObject_value (QJsonObject_insert k v obj) k' = (if k' = k then v else QJsonObject_value obj k')"
  by (simp add: QJsonObject_value_def map_of_QJsonObject_insert)

lemma QJsonObject_contains_insert:
  "QJsonObject_contains (QJsonObject_insert k v obj) k' \<longleftrightarrow> k' = k \<or> QJsonObject_contains obj k'"
  by (simp add: QJsonObject_contains_def map_of_QJsonObject_insert)

lemma toVariant_toInt_QJsonValue_int: "toVariant_toInt e (QJsonValue_int n) = n"
proof -
  have "round (rat_of_int (sint n)) = sint n"
    by (rule round_of_int)
  moreover have "(word_of_int (sint n) :: 32 word) = n"
    by (simp only: of_int_sint signed_scast_eq scast_id) 
  ultimately show ?thesis
    by (simp only: toVariant_toInt_def QJsonValue_int_def QJsonValue.case)
qed

lemma map_toVariant_toInt_QJsonValue_int:
  "map (toVariant_toInt e) (map QJsonValue_int xs) = xs"
  by (induction xs) (simp_all add: toVariant_toInt_QJsonValue_int)

lemma replace_spaces_id: "CHR '' '' \<notin> set s \<Longrightarrow> replace_spaces s = s"
  by (induction s) (auto simp: replace_spaces_def)

lemma AssetRef_eq_refl: "AssetRef_eq a a"
  by (simp add: AssetRef_eq_def)

lemma Folder_round_trip:
  assumes lib: "\<forall>u. QUuid_fromString e (QUuid_toString e u) = u"
    and kind: "\<not> isNull (parent f) \<longrightarrow> type (parent f) = AssetType_Folder"
  shows "Folder_eq (JsonToFolder e (FolderToJson e (name f) f []) ((Folder_new e)\<lparr>ref := ref f\<rparr>)) f"
proof (cases "isNull (parent f)")
  case True
  then show ?thesis
    by (simp add: Folder_eq_def JsonToFolder_def FolderToJson_def Folder_new_def AssetRef_new_def
        AssetRef_eq_def isNull_def QJsonObject_value_def QJsonObject_contains_def toString_def Let_def)
next
  case False
  with kind have k: "type (parent f) = AssetType_Folder" by simp
  from False lib k show ?thesis
    by (simp add: Folder_eq_def JsonToFolder_def FolderToJson_def Folder_new_def AssetRef_new_def
        AssetRef_eq_def isNull_def QJsonObject_value_insert QJsonObject_contains_insert
        QJsonObject_value_def QJsonObject_contains_def toString_def Let_def)
qed

lemma CompositeToJson_child_name:
  "toString (QJsonObject_value (toObject (CompositeToJson_child e c cn)) ''name'') = replace_spaces cn"
  by (simp add: CompositeToJson_child_def Let_def toObject_def QJsonObject_value_def toString_def)

lemma JsonToComposite_child_CompositeToJson_child:
  assumes lib: "\<forall>u. QUuid_fromString e (QUuid_toString e u) = u"
    and "childrenMap c cn = Some ch"
  shows "JsonToComposite_child e (toObject (CompositeToJson_child e c cn)) idx =
           ch\<lparr>child_part := \<lparr>uuid = uuid (child_part ch), type = AssetType_Part\<rparr>, child_index := idx\<rparr>"
  using assms
  by (cases ch)
     (simp add: JsonToComposite_child_def CompositeToJson_child_def childrenMap_value_def Let_def
      toObject_def QJsonObject_value_def toString_def toArray_def toVariant_toInt_QJsonValue_int
      comp_def)

lemma CompositeToJson_lookups:
  "QJsonObject_value (CompositeToJson e nm c []) ''root'' = QJsonValue_int (root c)"
  "QJsonObject_value (CompositeToJson e nm c []) ''name'' = JString nm"
  "QJsonObject_value (CompositeToJson e nm c []) ''properties'' = JString (comp_properties c)"
  "QJsonObject_value (CompositeToJson e nm c []) ''parts'' = JArray (map (CompositeToJson_child e c) (children c))"
  "QJsonObject_contains (CompositeToJson e nm c []) ''parent'' \<longleftrightarrow> \<not> isNull (parent c)"
  "\<not> isNull (parent c) \<Longrightarrow>
     QJsonObject_value (CompositeToJson e nm c []) ''parent'' = JString (QUuid_toString e (uuid (parent c)))"
  by (simp_all add: CompositeToJson_def Let_def QJsonObject_value_insert QJsonObject_contains_insert
      QJsonObject_contains_def QJsonObject_value_def)

lemma JsonToComposite_parts_fields:
  "ref (JsonToComposite_parts e vs idx cmp) = ref cmp"
  "name (JsonToComposite_parts e vs idx cmp) = name cmp"
  "parent (JsonToComposite_parts e vs idx cmp) = parent cmp"
  "root (JsonToComposite_parts e vs idx cmp) = root cmp"
  "comp_properties (JsonToComposite_parts e vs idx cmp) = comp_properties cmp"
  by (induction vs arbitrary: idx cmp) (simp_all add: Let_def)

lemma Composite_round_trip:
  assumes lib: "\<forall>u. QUuid_fromString e (QUuid_toString e u) = u"
    and kind: "\<not> isNull (parent c) \<longrightarrow> type (parent c) = AssetType_Folder"
    and dist: "distinct (children c)"
    and sync: "set (children c) = dom (childrenMap c)"
    and nosp: "\<forall>nm \<in> set (children c). CHR '' '' \<notin> set nm"
    and idx: "\<forall>i < length (children c). child_index (the (childrenMap c (children c ! i))) = of_nat i"
    and pkind: "\<forall>ch \<in> ran (childrenMap c). \<not> isNull (child_part ch) \<longrightarrow> type (child_part ch) = AssetType_Part"
  shows "Composite_eq (JsonToComposite e (CompositeToJson e (name c) c []) ((Composite_new e)\<lparr>ref := ref c\<rparr>)) c"
proof -
  let ?obj = "CompositeToJson e (name c) c []"
  let ?nm = "\<lambda>v. toString (QJsonObject_value (toObject v) ''name'')"
  let ?vs = "map (CompositeToJson_child e c) (children c)"
  define c1 where "c1 = (Composite_new e)\<lparr>ref := ref c, root := root c, name := name c,
      comp_properties := comp_properties c,
      parent := (if isNull (parent c) then AssetRef_new e
                 else \<lparr>uuid = uuid (parent c), type = AssetType_Folder\<rparr>)\<rparr>"
  define c' where "c' = JsonToComposite e ?obj ((Composite_new e)\<lparr>ref := ref c\<rparr>)"
  have run: "c' = JsonToComposite_parts e ?vs 0 c1"
    using lib
    by (simp add: c'_def c1_def JsonToComposite_def CompositeToJson_lookups Let_def toString_def
        toArray_def toVariant_toInt_QJsonValue_int Composite_new_def AssetRef_new_def)
  have names: "map ?nm ?vs = children c"
    using nosp by (simp add: CompositeToJson_child_name replace_spaces_id map_idI cong: map_cong)
  have ch1: "children c1 = []" and cm1: "childrenMap c1 = Map.empty"
    by (simp_all add: c1_def Composite_new_def)
  have children: "children c' = children c"
    by (simp add: run JsonToComposite_parts_children ch1 names del: map_map)
  have scalars: "ref c' = ref c" "name c' = name c" "root c' = root c"
    "comp_properties c' = comp_properties c" "AssetRef_eq (parent c') (parent c)"
    using kind
    by (simp_all add: run JsonToComposite_parts_fields c1_def Composite_new_def AssetRef_new_def
        AssetRef_eq_def isNull_def)
  have cmap: "rel_option Child_eq (childrenMap c' k) (childrenMap c k)" for k
  proof (cases "k \<in> set (children c)")
    case True
    with sync obtain ch where ch: "childrenMap c k = Some ch" by auto
    from True names have "k \<in> ?nm ` set ?vs"
      by (metis list.set_map)
    from JsonToComposite_parts_childrenMap [OF this, of e 0 c1] obtain j where j: "j < length ?vs"
      and a: "?nm (?vs ! j) = k"
      and d: "childrenMap c' k = Some (JsonToComposite_child e (toObject (?vs ! j)) (0 + of_nat j))"
      unfolding run by blast
    from j have j': "j < length (children c)" by simp
    with a nosp have kj: "children c ! j = k"
      by (simp add: CompositeToJson_child_name replace_spaces_id)
    with j' have vj: "?vs ! j = CompositeToJson_child e c k" by simp
    from idx j' kj ch have ix: "child_index ch = of_nat j" by auto
    from ch have "ch \<in> ran (childrenMap c)" by (auto simp: ran_def)
    with pkind have pk: "uuid (child_part ch) \<noteq> 0 \<longrightarrow> type (child_part ch) = AssetType_Part"
      by (simp add: isNull_def)
    from d vj have "childrenMap c' k =
        Some (ch\<lparr>child_part := \<lparr>uuid = uuid (child_part ch), type = AssetType_Part\<rparr>,
                 child_index := of_nat j\<rparr>)"
      by (simp add: JsonToComposite_child_CompositeToJson_child [OF lib ch])
    with ch ix pk show ?thesis
      by (auto simp: Child_eq_def AssetRef_eq_def)
  next
    case False
    with names have "k \<notin> ?nm ` set ?vs"
      by (metis list.set_map)
    from JsonToComposite_parts_childrenMap_other [OF this, of e 0 c1]
    have "childrenMap c' k = None" by (simp add: run cm1)
    moreover from False sync have "childrenMap c k = None" by auto
    ultimately show ?thesis by simp
  qed
  from scalars children cmap show ?thesis
    unfolding c'_def [symmetric] by (simp add: Composite_eq_def AssetRef_eq_refl)
qed

text \<open>
  C5, amended.  Provided that \<open>QUuid(u.toString())\<close> gives back \<open>u\<close>: for every folder
  whose parent is null or of kind Folder, and whatever its name, decoding the record that
  \<open>FolderToJson\<close> produces into a new folder with the same ref gives an equal folder; and
  for every composite that satisfies the invariants (parent null or of kind Folder,
  children and childrenMap in sync, the child at position i having index i, every part
  ref null or of kind Part) and none of whose child names contains a space, decoding the
  record that \<open>CompositeToJson\<close> produces into a new composite with the same ref gives
  an equal composite.  The encoder writes every space of a child name as an underscore.
\<close>

theorem mappers_round_trip:
  assumes "\<forall>u. QUuid_fromString e (QUuid_toString e u) = u"
  shows "((\<not> isNull (parent f) \<longrightarrow> type (parent f) = AssetType_Folder) \<longrightarrow>
            Folder_eq (JsonToFolder e (FolderToJson e (name f) f []) ((Folder_new e)\<lparr>ref := ref f\<rparr>)) f)
       \<and> ((\<not> isNull (parent c) \<longrightarrow> type (parent c) = AssetType_Folder)
            \<and> distinct (children c) \<and> set (children c) = dom (childrenMap c)
            \<and> (\<forall>nm \<in> set (children c). CHR '' '' \<notin> set nm)
            \<and> (\<forall>i < length (children c). child_index (the (childrenMap c (children c ! i))) = of_nat i)
            \<and> (\<forall>ch \<in> ran (childrenMap c). \<not> isNull (child_part ch) \<longrightarrow> type (child_part ch) = AssetType_Part)
          \<longrightarrow> Composite_eq (JsonToComposite e (CompositeToJson e (name c) c [])
                               ((Composite_new e)\<lparr>ref := ref c\<rparr>)) c)"
  using Folder_round_trip [OF assms, of f] Composite_round_trip [OF assms, of c]
  by blast

text \<open>
  C5 as stated fails: the composite with the child "left arm" satisfies the invariants,
  and its record decodes to a composite whose child is "left_arm".
\<close>

theorem mappers_round_trip_counterexample:
  "\<not> Composite_eq
       (JsonToComposite Env_example
          (CompositeToJson Env_example (name Composite_space_example) Composite_space_example [])
          ((Composite_new Env_example)\<lparr>ref := ref Composite_space_example\<rparr>))
       Composite_space_example"
proof -
  have "children (JsonToComposite Env_example
          (CompositeToJson Env_example (name Composite_space_example) Composite_space_example [])
          ((Composite_new Env_example)\<lparr>ref := ref Composite_space_example\<rparr>)) = [''left_arm'']"
    by (simp add: Composite_space_example_def Child_example_def CompositeToJson_def
        CompositeToJson_child_def childrenMap_value_def replace_spaces_def composite_defs)
  moreover have "children Composite_space_example = [''left arm'']"
    by (simp add: Composite_space_example_def)
  ultimately show ?thesis
    by (simp add: Composite_eq_def)
qed

text \<open>
  The theorem at the example library parameters, a folder with a parent, and the
  composite with the child "arm".
\<close>

theorem mappers_round_trip_witness:
  "(\<forall>u. QUuid_fromString Env_example (QUuid_toString Env_example u) = u)
   \<and> type (parent Folder_child_example) = AssetType_Folder
   \<and> Folder_eq (JsonToFolder Env_example
                  (FolderToJson Env_example (name Folder_child_example) Folder_child_example [])
                  ((Folder_new Env_example)\<lparr>ref := ref Folder_child_example\<rparr>))
       Folder_child_example
   \<and> children Composite_example = [''arm'']
   \<and> Composite_eq (JsonToComposite Env_example
                     (CompositeToJson Env_example (name Composite_example) Composite_example [])
                     ((Composite_new Env_example)\<lparr>ref := ref Composite_example\<rparr>))
       Composite_example"
proof -
  have lib: "\<forall>u. QUuid_fromString Env_example (QUuid_toString Env_example u) = u"
    by (simp add: Env_example_def)
  have fk: "type (parent Folder_child_example) = AssetType_Folder"
    by (simp add: Folder_child_example_def)
  have ck: "(\<not> isNull (parent Composite_example) \<longrightarrow> type (parent Composite_example) = AssetType_Folder)
            \<and> distinct (children Composite_example)
            \<and> set (children Composite_example) = dom (childrenMap Composite_example)
            \<and> (\<forall>nm \<in> set (children Composite_example). CHR '' '' \<notin> set nm)
            \<and> (\<forall>i < length (children Composite_example).
                  child_index (the (childrenMap Composite_example (children Composite_example ! i))) = of_nat i)
            \<and> (\<forall>ch \<in> ran (childrenMap Composite_example).
                  \<not> isNull (child_part ch) \<longrightarrow> type (child_part ch) = AssetType_Part)"
    by (simp add: Composite_example_def Child_example_def)
  have cn: "children Composite_example = [''arm'']"
    by (simp add: Composite_example_def)
  from mappers_round_trip [OF lib, of Folder_child_example Composite_example] lib fk ck cn
  show ?thesis by blast
qed

section \<open>What a successful load does to the registry\<close>
















end
